theory Spec2Isabelle
  imports Main "HOL-Library.AList" "HOL-Library.Word"
begin

unbundle bit_operations_syntax

section \<open>The host compiler's syntax, as far as the transformer reads it\<close>

text \<open>
  The RTTI transformer works on the syntax tree of the TypeScript compiler. Only the part
  of that tree the transformer looks at is modelled. A node's \<open>kind\<close> is a value of the
  host's enumeration \<open>ts.SyntaxKind\<close>; the kinds the transformer names are constructors,
  a few further type kinds are listed for concreteness, and \<open>OtherKind n\<close> stands for any
  remaining kind, \<open>n\<close> being the name the host's table \<open>ts.SyntaxKind[kind]\<close> gives it.
\<close>

datatype syntax_kind =
    StringKeyword | NumberKeyword | BooleanKeyword | BigIntKeyword
  | ReadonlyKeyword | PrivateKeyword | PublicKeyword | ProtectedKeyword | AbstractKeyword
  | TypeReference | ArrayType
  | UnionType | TupleType | ConditionalType | MappedType | FunctionType
  | PropertyAccessExpressionKind
  | OtherKind string

fun SyntaxKind_name :: "syntax_kind \<Rightarrow> string" where
  "SyntaxKind_name StringKeyword = ''StringKeyword''"
| "SyntaxKind_name NumberKeyword = ''NumberKeyword''"
| "SyntaxKind_name BooleanKeyword = ''BooleanKeyword''"
| "SyntaxKind_name BigIntKeyword = ''BigIntKeyword''"
| "SyntaxKind_name ReadonlyKeyword = ''ReadonlyKeyword''"
| "SyntaxKind_name PrivateKeyword = ''PrivateKeyword''"
| "SyntaxKind_name PublicKeyword = ''PublicKeyword''"
| "SyntaxKind_name ProtectedKeyword = ''ProtectedKeyword''"
| "SyntaxKind_name AbstractKeyword = ''AbstractKeyword''"
| "SyntaxKind_name TypeReference = ''TypeReference''"
| "SyntaxKind_name ArrayType = ''ArrayType''"
| "SyntaxKind_name UnionType = ''UnionType''"
| "SyntaxKind_name TupleType = ''TupleType''"
| "SyntaxKind_name ConditionalType = ''ConditionalType''"
| "SyntaxKind_name MappedType = ''MappedType''"
| "SyntaxKind_name FunctionType = ''FunctionType''"
| "SyntaxKind_name PropertyAccessExpressionKind = ''PropertyAccessExpression''"
| "SyntaxKind_name (OtherKind n) = n"

text \<open>
  A modifier list is an optional array of modifier tokens; a token is its kind.
  \<open>None\<close> is the absent (\<open>undefined\<close>) list, which the source tests with
  \<open>if (modifiers)\<close>; an empty array is truthy in JavaScript.
\<close>

type_synonym modifiers = "syntax_kind list option"

section \<open>Flag codes\<close>

text \<open>
  The flag constants live in the \<open>common\<close> package. Their values are the ones the
  transformer's header comment lists: \<open>$\<close> public, \<open>@\<close> protected, \<open>#\<close> private,
  \<open>R\<close> readonly, \<open>A\<close> abstract, \<open>P\<close> property, \<open>C\<close> class, \<open>M\<close> method.

  Modelled from the spec: \<open>F_OPTIONAL\<close>, the optional-parameter marker, is not in that
  list; it is a single-character code like the others.
\<close>

definition F_PUBLIC :: string where "F_PUBLIC = ''$''"
definition F_PROTECTED :: string where "F_PROTECTED = ''@''"
definition F_PRIVATE :: string where "F_PRIVATE = ''#''"
definition F_READONLY :: string where "F_READONLY = ''R''"
definition F_ABSTRACT :: string where "F_ABSTRACT = ''A''"
definition F_PROPERTY :: string where "F_PROPERTY = ''P''"
definition F_CLASS :: string where "F_CLASS = ''C''"
definition F_METHOD :: string where "F_METHOD = ''M''"
definition F_OPTIONAL :: string where "F_OPTIONAL = ''?''"

subsection \<open>flags.ts\<close>

text \<open>\<open>modifiers.some(x => x.kind === k)\<close>\<close>

definition some_kind :: "syntax_kind \<Rightarrow> syntax_kind list \<Rightarrow> bool" where
  "some_kind k ms = list_ex (\<lambda>x. x = k) ms"

definition getVisibility :: "modifiers \<Rightarrow> string" where
  "getVisibility ms =
     (case ms of
        None \<Rightarrow> F_PUBLIC
      | Some l \<Rightarrow>
          if some_kind PublicKeyword l then F_PUBLIC
          else if some_kind PrivateKeyword l then F_PRIVATE
          else if some_kind ProtectedKeyword l then F_PROTECTED
          else F_PUBLIC)"

definition isReadOnly :: "modifiers \<Rightarrow> string" where
  "isReadOnly ms =
     (case ms of
        None \<Rightarrow> ''''
      | Some l \<Rightarrow> if some_kind ReadonlyKeyword l then F_READONLY else '''')"

definition isAbstract :: "modifiers \<Rightarrow> string" where
  "isAbstract ms =
     (case ms of
        None \<Rightarrow> ''''
      | Some l \<Rightarrow> if some_kind AbstractKeyword l then F_ABSTRACT else '''')"

text \<open>The kinds present in a modifier list; none when the list is absent.\<close>

definition modifier_kinds :: "modifiers \<Rightarrow> syntax_kind set" where
  "modifier_kinds ms = (case ms of None \<Rightarrow> {} | Some l \<Rightarrow> set l)"

section \<open>Names, type nodes and expressions\<close>

text \<open>
  An entity name is an identifier or a dotted name \<open>left.right\<close>. A type node is a
  type reference (its type arguments are never read by the transformer), an array type
  with its element type, or any other type node, of which only the kind is read:
  \<open>PlainTypeNode k\<close> is a node of a kind \<open>k\<close> other than \<open>TypeReference\<close> and
  \<open>ArrayType\<close>, a keyword type or a union, tuple, function type and so on.
\<close>

datatype entity_name = IdentifierName string | QualifiedName entity_name string

datatype type_node =
    TypeReferenceNode entity_name
  | ArrayTypeNode type_node
  | PlainTypeNode syntax_kind

fun kind :: "type_node \<Rightarrow> syntax_kind" where
  "kind (TypeReferenceNode _) = TypeReference"
| "kind (ArrayTypeNode _) = ArrayType"
| "kind (PlainTypeNode k) = k"

text \<open>
  The expressions the transformer builds with \<open>ts.factory\<close>, and the plain values it
  hands to the metadata decorator and to the generic serializer. \<open>LiteralNode e\<close> is the
  source's \<open>literalNode(e)\<close>, the object \<open>{ $__isTSNode: true, node: e }\<close>.
\<close>

datatype expression =
    Identifier string
  | PropertyAccessExpression expression string
  | CallExpression expression "expression list"
  | StringLiteral string
  | VoidZero
  | ArrayLiteralExpression "expression list"
  | ArrowFunction expression
  | SerializedValue meta_value
and meta_value =
    MetaString string
  | LiteralNode expression
  | MetaArray "meta_value list"
  | MetaObject "(string \<times> meta_value) list"

definition literalNode :: "expression \<Rightarrow> meta_value" where
  "literalNode node = LiteralNode node"

text \<open>
  Modelled from the spec: \<open>forwardRef\<close> (forward-ref.ts) wraps a serialized type
  expression in a zero-argument deferred-evaluation thunk; it performs no resolution and
  cannot fail.
\<close>

definition forwardRef :: "expression \<Rightarrow> expression" where
  "forwardRef e = ArrowFunction e"

text \<open>
  Modelled from the spec: \<open>serialize\<close> (serialize.ts) is the generic
  value-to-literal-expression serializer: given a plain value it returns a constructible
  expression. The expression is kept symbolic.
\<close>

definition serialize :: "meta_value \<Rightarrow> expression" where
  "serialize v = SerializedValue v"

text \<open>
  Modelled from the spec: \<open>metadataDecorator\<close> (metadata-decorator.ts) is the attachment
  primitive: it makes the decorator that attaches a value under a key. A declaration may
  also carry decorators written in the source, of which nothing is read.
\<close>

datatype decorator = SourceDecorator string | MetadataDecorator string meta_value

definition metadataDecorator :: "string \<Rightarrow> meta_value \<Rightarrow> decorator" where
  "metadataDecorator key v = MetadataDecorator key v"

datatype error = Error string | TypeError string

text \<open>
  Modelled from the spec: the two helpers of utils.ts. The root name is the leftmost
  identifier of a possibly dotted name; cloning a name as an expression rebuilds the
  member-access path with a given identifier as its new root.
\<close>

fun getRootNameOfEntityName :: "entity_name \<Rightarrow> string" where
  "getRootNameOfEntityName (IdentifierName n) = n"
| "getRootNameOfEntityName (QualifiedName left right) = getRootNameOfEntityName left"

fun cloneEntityNameAsExpr :: "entity_name \<Rightarrow> string \<Rightarrow> expression" where
  "cloneEntityNameAsExpr (IdentifierName n) rootName = Identifier rootName"
| "cloneEntityNameAsExpr (QualifiedName left right) rootName =
     PropertyAccessExpression (cloneEntityNameAsExpr left rootName) right"

fun isIdentifier :: "entity_name \<Rightarrow> bool" where
  "isIdentifier (IdentifierName _) = True"
| "isIdentifier (QualifiedName _ _) = False"

section \<open>Compiler options and import declarations\<close>

datatype module_kind = ModuleNone | CommonJS | AMD | UMD | System | ES2015 | ES2020 | ESNext

text \<open>\<open>emitDecoratorMetadata\<close> is an optional boolean: \<open>None\<close> is \<open>undefined\<close>.\<close>

record compiler_options =
  emitDecoratorMetadata :: "bool option"
  module_kind_option :: module_kind

definition truthy :: "bool option \<Rightarrow> bool" where
  "truthy b = (b = Some True)"

text \<open>
  An import declaration \<open>import clause from 'moduleSpecifier'\<close>. The clause is absent in
  a side-effect import; it has an optional default name and optional named bindings,
  which are a list of specifiers \<open>{ propertyName as name }\<close> or a namespace import
  \<open>* as name\<close>. Syntax nodes are objects compared by reference; \<open>node_id\<close> is the
  identity of the declaration, so two declarations are the same object when they are equal
  as values, provided identities are not shared.
\<close>

datatype import_specifier =
  ImportSpecifier (spec_propertyName: "string option") (spec_name: string)

datatype named_import_bindings =
    NamedImports "import_specifier list"
  | NamespaceImport string

record import_clause =
  clause_name :: "string option"
  namedBindings :: "named_import_bindings option"

record import_declaration =
  node_id :: nat
  importClause :: "import_clause option"
  moduleSpecifier :: string

section \<open>The import map\<close>

text \<open>
  \<open>referenced\<close> is optional in the source and only tested for truthiness, so the absent
  value is \<open>False\<close>. The import map is a JavaScript \<open>Map\<close>: it iterates in the order of
  first insertion and \<open>set\<close> on a present key replaces the value in place, which is what
  \<open>AList.update\<close> does on an association list.
\<close>

record TypeImport =
  importDeclaration :: import_declaration
  refName :: string
  modulePath :: string
  isNamespace :: bool
  referenced :: bool
  name :: string
  localName :: string

type_synonym import_map = "(string \<times> TypeImport) list"

text \<open>The marker appended to a local name: GREEK CAPITAL LETTER PHI, in UTF-8.\<close>

definition Phi :: string where
  "Phi = [CHR 0xCE, CHR 0xA6]"

definition assureTypeAvailable :: "import_map \<Rightarrow> entity_name \<Rightarrow> string \<times> import_map" where
  "assureTypeAvailable importMap entityName =
     (let rootName = getRootNameOfEntityName entityName in
      case map_of importMap rootName of
        Some impo \<Rightarrow>
          (localName impo,
           AList.map_entry rootName (\<lambda>i. i\<lparr>referenced := True\<rparr>) importMap)
      | None \<Rightarrow> (rootName, importMap))"

section \<open>The type reference serializer\<close>

definition quote :: string where
  "quote = [CHR 0x27]"

text \<open>
  \<open>propertyPrepend\<close> is typed for an identifier or a property access; on any other
  expression the source reads \<open>propAccess.expression\<close>, which is undefined, and the
  host's node test then fails on it.
\<close>

fun propertyPrepend :: "expression \<Rightarrow> expression \<Rightarrow> error + expression" where
  "propertyPrepend expr (Identifier n) = Inr (PropertyAccessExpression expr n)"
| "propertyPrepend expr (PropertyAccessExpression (PropertyAccessExpression a b) n) =
     (case propertyPrepend expr (PropertyAccessExpression a b) of
        Inl e \<Rightarrow> Inl e
      | Inr x \<Rightarrow> Inr (PropertyAccessExpression x n))"
| "propertyPrepend expr (PropertyAccessExpression a n) =
     Inl (Error (''Unsupported expression type '' @ quote
                 @ SyntaxKind_name PropertyAccessExpressionKind @ quote))"
| "propertyPrepend expr _ =
     Inl (TypeError ''Cannot read properties of undefined (reading kind)'')"

definition require_call :: "string \<Rightarrow> expression" where
  "require_call path = CallExpression (Identifier ''require'') [StringLiteral path]"

definition entityNameExpr :: "entity_name \<Rightarrow> string \<Rightarrow> expression" where
  "entityNameExpr typeName rootName =
     (if isIdentifier typeName then Identifier rootName
      else cloneEntityNameAsExpr typeName rootName)"

fun serializeTypeRef ::
  "compiler_options \<Rightarrow> import_map \<Rightarrow> type_node option \<Rightarrow> bool
     \<Rightarrow> error + (expression \<times> import_map)" where
  "serializeTypeRef opts importMap None extended = Inr (VoidZero, importMap)"
| "serializeTypeRef opts importMap (Some (TypeReferenceNode typeName)) extended =
     (if module_kind_option opts = CommonJS then
        (let origName = getRootNameOfEntityName typeName;
             expr = entityNameExpr typeName origName
         in case map_of importMap origName of
              None \<Rightarrow> Inr (expr, importMap)
            | Some impo \<Rightarrow>
                (let marked =
                       AList.map_entry origName (\<lambda>i. i\<lparr>referenced := True\<rparr>) importMap
                 in if \<not> isNamespace impo then
                      (case propertyPrepend (require_call (modulePath impo)) expr of
                         Inl e \<Rightarrow> Inl e
                       | Inr x \<Rightarrow> Inr (x, marked))
                    else
                      (let (rootName, importMap') = assureTypeAvailable marked typeName
                       in Inr (entityNameExpr typeName rootName, importMap'))))
      else
        (let (rootName, importMap') = assureTypeAvailable importMap typeName
         in Inr (entityNameExpr typeName rootName, importMap')))"
| "serializeTypeRef opts importMap (Some (ArrayTypeNode elementType)) extended =
     (if extended then
        (case serializeTypeRef opts importMap (Some elementType) True of
           Inl e \<Rightarrow> Inl e
         | Inr (x, importMap') \<Rightarrow> Inr (ArrayLiteralExpression [x], importMap'))
      else Inr (Identifier ''Array'', importMap))"
| "serializeTypeRef opts importMap (Some (PlainTypeNode k)) extended =
     (if k = StringKeyword then Inr (Identifier ''String'', importMap)
      else if k = NumberKeyword then Inr (Identifier ''Number'', importMap)
      else if k = BooleanKeyword then Inr (Identifier ''Boolean'', importMap)
      else if k = BigIntKeyword then Inr (Identifier ''BigInt'', importMap)
      else if extended then
        Inl (Error (''Failed to serializeTypeRef for kind '' @ SyntaxKind_name k @ ''!''))
      else Inr (Identifier ''Object'', importMap))"

text \<open>
  Checked types carry the host's \<open>ts.TypeFlags\<close> bit mask; the JavaScript operator
  \<open>&\<close> works on 32-bit integers. The bit values are those of the host's enumeration.
\<close>

definition TypeFlags_String :: "32 word" where "TypeFlags_String = 4"
definition TypeFlags_Number :: "32 word" where "TypeFlags_Number = 8"
definition TypeFlags_Boolean :: "32 word" where "TypeFlags_Boolean = 16"
definition TypeFlags_BigInt :: "32 word" where "TypeFlags_BigInt = 64"
definition TypeFlags_Void :: "32 word" where "TypeFlags_Void = 16384"
definition TypeFlags_Object :: "32 word" where "TypeFlags_Object = 524288"

definition typeToTypeRef :: "32 word \<Rightarrow> expression" where
  "typeToTypeRef flags =
     (if flags AND TypeFlags_String \<noteq> 0 then Identifier ''String''
      else if flags AND TypeFlags_Number \<noteq> 0 then Identifier ''Number''
      else if flags AND TypeFlags_Boolean \<noteq> 0 then Identifier ''Boolean''
      else if flags AND TypeFlags_Void \<noteq> 0 then VoidZero
      else if flags AND TypeFlags_BigInt \<noteq> 0 then Identifier ''BigInt''
      else if flags AND TypeFlags_Object \<noteq> 0 then Identifier ''Object''
      else Identifier ''Object'')"

section \<open>Declarations and the metadata extractors\<close>

record parameter_declaration =
  param_modifiers :: modifiers
  param_name :: string
  questionToken :: bool
  param_type :: "type_node option"

text \<open>
  The declarations the visitor looks at. A class has its members; a method has its
  parameters, its optional return type annotation, the flags of the return type the type
  checker gives for its signature, and its body; \<open>OtherNode\<close> is any other node with its
  children. Decorator lists are optional, as \<open>node.decorators\<close> is. Names, modifiers,
  type nodes, parameters and property initializers are leaves here: declarations nested
  in them are outside this fragment of the syntax.
\<close>

datatype node =
    ImportDeclaration import_declaration
  | ClassDeclaration "decorator list option" modifiers string "node list"
  | PropertyDeclaration "decorator list option" modifiers string "type_node option"
  | MethodDeclaration "decorator list option" modifiers string
      "parameter_declaration list" "type_node option" "32 word" "node list"
  | ConstructorDeclaration "parameter_declaration list" "node list"
  | OtherNode string "node list"

text \<open>The four tests the parameter loop makes on one modifier, in the source's order.\<close>

definition modifier_flags :: "syntax_kind \<Rightarrow> string list" where
  "modifier_flags k =
     (if k = ReadonlyKeyword then [F_READONLY] else [])
     @ (if k = PrivateKeyword then [F_PRIVATE] else [])
     @ (if k = PublicKeyword then [F_PUBLIC] else [])
     @ (if k = ProtectedKeyword then [F_PROTECTED] else [])"

definition param_flags :: "parameter_declaration \<Rightarrow> string list" where
  "param_flags param =
     (case param_modifiers param of
        None \<Rightarrow> []
      | Some ms \<Rightarrow> concat (map modifier_flags ms))
     @ (if questionToken param then [F_OPTIONAL] else [])"

definition param_meta :: "parameter_declaration \<Rightarrow> expression \<Rightarrow> meta_value" where
  "param_meta param t =
     (let f = param_flags param in
      MetaObject
        ([(''n'', MetaString (param_name param)),
          (''t'', literalNode (forwardRef t))]
         @ (if length f > 0 then [(''f'', MetaString (concat f))] else [])))"

text \<open>
  The loop over the parameters, with the two arrays it pushes to and the import map.
\<close>

fun extractParams_loop ::
  "compiler_options \<Rightarrow> parameter_declaration list \<Rightarrow> expression list \<Rightarrow> meta_value list
     \<Rightarrow> import_map \<Rightarrow> error + (expression list \<times> meta_value list \<times> import_map)" where
  "extractParams_loop opts [] standardParamTypes serializedParamMeta importMap =
     Inr (standardParamTypes, serializedParamMeta, importMap)"
| "extractParams_loop opts (param # rest) standardParamTypes serializedParamMeta importMap =
     (case serializeTypeRef opts importMap (param_type param) False of
        Inl e \<Rightarrow> Inl e
      | Inr (expr, importMap1) \<Rightarrow>
          (case serializeTypeRef opts importMap1 (param_type param) True of
             Inl e \<Rightarrow> Inl e
           | Inr (t, importMap2) \<Rightarrow>
               extractParams_loop opts rest
                 (standardParamTypes @ [expr])
                 (serializedParamMeta @ [literalNode (serialize (param_meta param t))])
                 importMap2))"

definition extractParamsMetadata ::
  "compiler_options \<Rightarrow> bool option \<Rightarrow> import_map \<Rightarrow> parameter_declaration list
     \<Rightarrow> error + (decorator list \<times> import_map)" where
  "extractParamsMetadata opts emitStandardMetadata importMap parameters =
     (case extractParams_loop opts parameters [] [] importMap of
        Inl e \<Rightarrow> Inl e
      | Inr (standardParamTypes, serializedParamMeta, importMap') \<Rightarrow>
          Inr ([metadataDecorator ''rt:p'' (MetaArray serializedParamMeta)]
               @ (if truthy emitStandardMetadata
                  then [metadataDecorator ''design:paramtypes''
                          (MetaArray (map literalNode standardParamTypes))]
                  else []),
               importMap'))"

definition extractTypeMetadata ::
  "compiler_options \<Rightarrow> bool option \<Rightarrow> import_map \<Rightarrow> type_node option \<Rightarrow> string
     \<Rightarrow> error + (decorator list \<times> import_map)" where
  "extractTypeMetadata opts emitStandardMetadata importMap type standardName =
     (case serializeTypeRef opts importMap type True of
        Inl e \<Rightarrow> Inl e
      | Inr (x, importMap1) \<Rightarrow>
          (let decs = [metadataDecorator ''rt:t'' (literalNode (forwardRef x))] in
           if truthy emitStandardMetadata then
             (case serializeTypeRef opts importMap1 type False of
                Inl e \<Rightarrow> Inl e
              | Inr (y, importMap2) \<Rightarrow>
                  Inr (decs @ [metadataDecorator (''design:'' @ standardName) (literalNode y)],
                       importMap2))
           else Inr (decs, importMap1)))"

text \<open>\<open>klass.members.find(x => ts.isConstructorDeclaration(x))\<close>\<close>

fun find_constructor :: "node list \<Rightarrow> parameter_declaration list option" where
  "find_constructor [] = None"
| "find_constructor (ConstructorDeclaration parameters body # rest) = Some parameters"
| "find_constructor (_ # rest) = find_constructor rest"

definition extractClassMetadata ::
  "compiler_options \<Rightarrow> bool option \<Rightarrow> import_map \<Rightarrow> modifiers \<Rightarrow> node list
     \<Rightarrow> error + (decorator list \<times> import_map)" where
  "extractClassMetadata opts emitStandardMetadata importMap mods members =
     (let flags = metadataDecorator ''rt:f''
                    (MetaString (F_CLASS @ getVisibility mods @ isAbstract mods)) in
      case find_constructor members of
        None \<Rightarrow> Inr ([flags], importMap)
      | Some parameters \<Rightarrow>
          (case extractParamsMetadata opts emitStandardMetadata importMap parameters of
             Inl e \<Rightarrow> Inl e
           | Inr (decs, importMap') \<Rightarrow> Inr (decs @ [flags], importMap')))"

definition extractPropertyMetadata ::
  "compiler_options \<Rightarrow> bool option \<Rightarrow> import_map \<Rightarrow> modifiers \<Rightarrow> type_node option
     \<Rightarrow> error + (decorator list \<times> import_map)" where
  "extractPropertyMetadata opts emitStandardMetadata importMap mods type =
     (case extractTypeMetadata opts emitStandardMetadata importMap type ''type'' of
        Inl e \<Rightarrow> Inl e
      | Inr (decs, importMap') \<Rightarrow>
          Inr (decs @ [metadataDecorator ''rt:f''
                         (MetaString (F_PROPERTY @ getVisibility mods @ isReadOnly mods))],
               importMap'))"

definition extractMethodMetadata ::
  "compiler_options \<Rightarrow> bool option \<Rightarrow> import_map \<Rightarrow> modifiers
     \<Rightarrow> parameter_declaration list \<Rightarrow> type_node option \<Rightarrow> 32 word
     \<Rightarrow> error + (decorator list \<times> import_map)" where
  "extractMethodMetadata opts emitStandardMetadata importMap mods parameters type returnFlags =
     (let decs0 = (if truthy emitStandardMetadata
                   then [metadataDecorator ''design:type'' (literalNode (Identifier ''Function''))]
                   else [])
      in case extractParamsMetadata opts emitStandardMetadata importMap parameters of
           Inl e \<Rightarrow> Inl e
         | Inr (pdecs, importMap1) \<Rightarrow>
             (let decs1 = decs0 @ pdecs
                    @ [metadataDecorator ''rt:f''
                         (MetaString (F_METHOD @ getVisibility mods @ isAbstract mods))]
              in case type of
                   Some t \<Rightarrow>
                     (case serializeTypeRef opts importMap1 (Some t) True of
                        Inl e \<Rightarrow> Inl e
                      | Inr (returnType, importMap2) \<Rightarrow>
                          (case extractTypeMetadata opts emitStandardMetadata importMap2
                                  (Some t) ''returntype'' of
                             Inl e \<Rightarrow> Inl e
                           | Inr (tdecs, importMap3) \<Rightarrow> Inr (decs1 @ tdecs, importMap3)))
                 | None \<Rightarrow>
                     (let returnT = typeToTypeRef returnFlags in
                      Inr (decs1
                           @ [metadataDecorator ''rt:t'' (literalNode (forwardRef returnT))]
                           @ (if truthy emitStandardMetadata
                              then [metadataDecorator ''design:returntype'' (literalNode VoidZero)]
                              else []),
                           importMap1))))"

section \<open>The visitor\<close>

text \<open>
  The import branch of the visitor. The host's tests \<open>ts.isNamedImports\<close> and
  \<open>ts.isNamespaceImport\<close> read the \<open>kind\<close> field of their argument, so on a clause
  without named bindings (\<open>import X from 'mod'\<close>) the first test raises a
  \<open>TypeError\<close>.
\<close>

definition namedImport_record :: "import_declaration \<Rightarrow> import_specifier \<Rightarrow> TypeImport" where
  "namedImport_record decl binding =
     \<lparr> importDeclaration = decl,
       refName = spec_name binding,
       modulePath = moduleSpecifier decl,
       isNamespace = False,
       referenced = False,
       name = spec_name binding,
       localName = (case spec_propertyName binding of
                      Some p \<Rightarrow> p
                    | None \<Rightarrow> spec_name binding) @ Phi \<rparr>"

definition namespaceImport_record :: "import_declaration \<Rightarrow> string \<Rightarrow> TypeImport" where
  "namespaceImport_record decl n =
     \<lparr> importDeclaration = decl,
       refName = n,
       modulePath = moduleSpecifier decl,
       isNamespace = True,
       referenced = False,
       name = n,
       localName = n @ Phi \<rparr>"

definition visitImport :: "import_declaration \<Rightarrow> import_map \<Rightarrow> error + import_map" where
  "visitImport decl importMap =
     (case importClause decl of
        None \<Rightarrow> Inr importMap
      | Some clause \<Rightarrow>
          (case namedBindings clause of
             None \<Rightarrow> Inl (TypeError ''Cannot read properties of undefined (reading kind)'')
           | Some (NamedImports elements) \<Rightarrow>
               Inr (fold (\<lambda>binding. AList.update (spec_name binding)
                                       (namedImport_record decl binding))
                         elements importMap)
           | Some (NamespaceImport n) \<Rightarrow>
               Inr (AList.update n (namespaceImport_record decl n) importMap)))"

definition add_decorators :: "decorator list option \<Rightarrow> decorator list \<Rightarrow> decorator list option" where
  "add_decorators decs new = Some ((case decs of None \<Rightarrow> [] | Some ds \<Rightarrow> ds) @ new)"

text \<open>
  The visitor: the import branch, then the decoration of a property, class or method, then
  \<open>ts.visitEachChild\<close>, which visits the children in order and rebuilds the node.
\<close>

fun visitor ::
  "compiler_options \<Rightarrow> bool option \<Rightarrow> node \<Rightarrow> import_map \<Rightarrow> error + (node \<times> import_map)"
and visitNodes ::
  "compiler_options \<Rightarrow> bool option \<Rightarrow> node list \<Rightarrow> import_map
     \<Rightarrow> error + (node list \<times> import_map)" where
  "visitor opts emitStd (ImportDeclaration decl) importMap =
     (case visitImport decl importMap of
        Inl e \<Rightarrow> Inl e
      | Inr importMap' \<Rightarrow> Inr (ImportDeclaration decl, importMap'))"
| "visitor opts emitStd (PropertyDeclaration decs mods nm type) importMap =
     (case extractPropertyMetadata opts emitStd importMap mods type of
        Inl e \<Rightarrow> Inl e
      | Inr (new, importMap') \<Rightarrow>
          Inr (PropertyDeclaration (add_decorators decs new) mods nm type, importMap'))"
| "visitor opts emitStd (ClassDeclaration decs mods nm members) importMap =
     (case extractClassMetadata opts emitStd importMap mods members of
        Inl e \<Rightarrow> Inl e
      | Inr (new, importMap1) \<Rightarrow>
          (case visitNodes opts emitStd members importMap1 of
             Inl e \<Rightarrow> Inl e
           | Inr (members', importMap2) \<Rightarrow>
               Inr (ClassDeclaration (add_decorators decs new) mods nm members', importMap2)))"
| "visitor opts emitStd (MethodDeclaration decs mods nm parameters type returnFlags body) importMap =
     (case extractMethodMetadata opts emitStd importMap mods parameters type returnFlags of
        Inl e \<Rightarrow> Inl e
      | Inr (new, importMap1) \<Rightarrow>
          (case visitNodes opts emitStd body importMap1 of
             Inl e \<Rightarrow> Inl e
           | Inr (body', importMap2) \<Rightarrow>
               Inr (MethodDeclaration (add_decorators decs new) mods nm parameters type
                      returnFlags body',
                    importMap2)))"
| "visitor opts emitStd (ConstructorDeclaration parameters body) importMap =
     (case visitNodes opts emitStd body importMap of
        Inl e \<Rightarrow> Inl e
      | Inr (body', importMap') \<Rightarrow> Inr (ConstructorDeclaration parameters body', importMap'))"
| "visitor opts emitStd (OtherNode text children) importMap =
     (case visitNodes opts emitStd children importMap of
        Inl e \<Rightarrow> Inl e
      | Inr (children', importMap') \<Rightarrow> Inr (OtherNode text children', importMap'))"
| "visitNodes opts emitStd [] importMap = Inr ([], importMap)"
| "visitNodes opts emitStd (n # ns) importMap =
     (case visitor opts emitStd n importMap of
        Inl e \<Rightarrow> Inl e
      | Inr (n', importMap1) \<Rightarrow>
          (case visitNodes opts emitStd ns importMap1 of
             Inl e \<Rightarrow> Inl e
           | Inr (ns', importMap2) \<Rightarrow> Inr (n' # ns', importMap2)))"

section \<open>Import synthesis\<close>

text \<open>
  \<open>Array.prototype.indexOf\<close> and \<open>splice(i, 0, x)\<close>.
\<close>

fun indexOf :: "'a list \<Rightarrow> 'a \<Rightarrow> int" where
  "indexOf [] x = - 1"
| "indexOf (y # ys) x =
     (if y = x then 0 else (let i = indexOf ys x in if i < 0 then - 1 else i + 1))"

definition splice_in :: "'a list \<Rightarrow> int \<Rightarrow> 'a \<Rightarrow> 'a list" where
  "splice_in xs i x = take (nat i) xs @ [x] @ drop (nat i) xs"

text \<open>
  The import declaration the loop creates for a record. It is a new object, so it gets
  an identity no existing declaration has: the records are numbered in iteration order
  from a base above every identity in the statements and in the import map.
\<close>

definition ownedImport :: "nat \<Rightarrow> TypeImport \<Rightarrow> node" where
  "ownedImport i impo =
     ImportDeclaration
       \<lparr> node_id = i,
         importClause = Some
           \<lparr> clause_name = None,
             namedBindings = Some
               (if isNamespace impo then NamespaceImport (localName impo)
                else NamedImports [ImportSpecifier (Some (refName impo)) (localName impo)]) \<rparr>,
         moduleSpecifier = moduleSpecifier (importDeclaration impo) \<rparr>"

fun node_ids :: "node \<Rightarrow> nat list"
and node_list_ids :: "node list \<Rightarrow> nat list" where
  "node_ids (ImportDeclaration decl) = [node_id decl]"
| "node_ids (ClassDeclaration decs mods nm members) = node_list_ids members"
| "node_ids (PropertyDeclaration decs mods nm type) = []"
| "node_ids (MethodDeclaration decs mods nm parameters type returnFlags body) = node_list_ids body"
| "node_ids (ConstructorDeclaration parameters body) = node_list_ids body"
| "node_ids (OtherNode text children) = node_list_ids children"
| "node_list_ids [] = []"
| "node_list_ids (n # ns) = node_ids n @ node_list_ids ns"

definition fresh_base :: "import_map \<Rightarrow> node list \<Rightarrow> nat" where
  "fresh_base importMap statements =
     Suc (fold max (map (\<lambda>p. node_id (importDeclaration (snd p))) importMap
                    @ node_list_ids statements) 0)"

definition generateImports_step :: "bool \<Rightarrow> nat \<times> TypeImport \<Rightarrow> node list \<Rightarrow> node list" where
  "generateImports_step isCommonJS ir statements =
     (let impo = snd ir in
      if \<not> referenced impo then statements
      else if isCommonJS \<and> \<not> isNamespace impo then statements
      else
        (let ownedImpo = ownedImport (fst ir) impo;
             impoIndex = indexOf statements (ImportDeclaration (importDeclaration impo))
         in if impoIndex \<ge> 0 then splice_in statements impoIndex ownedImpo
            else splice_in statements 0 ownedImpo))"

fun generateImports_loop :: "bool \<Rightarrow> (nat \<times> TypeImport) list \<Rightarrow> node list \<Rightarrow> node list" where
  "generateImports_loop isCommonJS [] statements = statements"
| "generateImports_loop isCommonJS (ir # rest) statements =
     generateImports_loop isCommonJS rest (generateImports_step isCommonJS ir statements)"

definition numbered_records :: "import_map \<Rightarrow> node list \<Rightarrow> (nat \<times> TypeImport) list" where
  "numbered_records importMap statements =
     List.enumerate (fresh_base importMap statements) (map snd importMap)"

definition generateImports :: "compiler_options \<Rightarrow> import_map \<Rightarrow> node list \<Rightarrow> node list" where
  "generateImports opts importMap statements =
     generateImports_loop (module_kind_option opts = CommonJS)
       (numbered_records importMap statements) statements"

section \<open>The transformer\<close>

text \<open>
  Modelled from the spec: \<open>rtHelper\<close> (rt-helper.ts) is the small runtime support
  declaration injected at the top of every processed module; it is opaque.
\<close>

definition rtHelper :: node where
  "rtHelper = OtherNode ''rtHelper'' []"

text \<open>
  A source file is its statements and the fields \<open>ts.factory.updateSourceFile\<close> is
  handed back unchanged, of which \<open>isDeclarationFile\<close> stands for all.
\<close>

record source_file =
  statements :: "node list"
  isDeclarationFile :: bool

text \<open>
  \<open>transformer(program)\<close> reads the host's \<open>emitDecoratorMetadata\<close> option and then
  writes \<open>false\<close> to it in the host's options object. The result is the options object
  after the call and the value captured in \<open>emitStandardMetadata\<close>.
\<close>

definition transformer :: "compiler_options \<Rightarrow> compiler_options \<times> bool option" where
  "transformer opts = (opts\<lparr>emitDecoratorMetadata := Some False\<rparr>, emitDecoratorMetadata opts)"

text \<open>The function the transformer factory returns for a source file.\<close>

definition transformSourceFile ::
  "compiler_options \<Rightarrow> bool option \<Rightarrow> source_file \<Rightarrow> error + source_file" where
  "transformSourceFile opts emitStandardMetadata sourceFile =
     (let sourceFile1 = sourceFile\<lparr>statements := rtHelper # statements sourceFile\<rparr> in
      case visitNodes opts emitStandardMetadata (statements sourceFile1) [] of
        Inl e \<Rightarrow> Inl e
      | Inr (visited, importMap) \<Rightarrow>
          Inr (sourceFile1\<lparr>statements := generateImports opts importMap visited\<rparr>))"

section \<open>Properties of import maps\<close>

text \<open>
  The import map with every \<open>referenced\<close> flag cleared, and the fields of a record the
  serializer reads.
\<close>

definition unmark :: "import_map \<Rightarrow> import_map" where
  "unmark importMap = map (\<lambda>p. (fst p, (snd p)\<lparr>referenced := False\<rparr>)) importMap"

definition static_fields :: "TypeImport \<Rightarrow> bool \<times> string \<times> string" where
  "static_fields r = (isNamespace r, localName r, modulePath r)"

section \<open>Import synthesis, as the specification words it\<close>

text \<open>
  A record needs a synthesized import when it is referenced and, under CommonJS, is a
  namespace record. Its original statement is the import declaration it was created from.
\<close>

definition needs_import :: "bool \<Rightarrow> TypeImport \<Rightarrow> bool" where
  "needs_import isCommonJS impo = (referenced impo \<and> (isCommonJS \<longrightarrow> isNamespace impo))"

definition original_of :: "TypeImport \<Rightarrow> node" where
  "original_of impo = ImportDeclaration (importDeclaration impo)"

text \<open>
  The imports synthesized for the numbered records whose original statement is \<open>s\<close>, in
  record order; those of the records whose original statement is not in the list, latest
  first; the statements with the imports of each statement placed immediately before it;
  and the result of import synthesis: the imports without a located original at the top,
  then every statement preceded by the imports of its records.
\<close>

definition synthesized_for :: "(nat \<times> TypeImport) list \<Rightarrow> node \<Rightarrow> node list" where
  "synthesized_for recs s =
     map (\<lambda>p. ownedImport (fst p) (snd p)) (filter (\<lambda>p. original_of (snd p) = s) recs)"

definition synthesized_at_top :: "(nat \<times> TypeImport) list \<Rightarrow> node list \<Rightarrow> node list" where
  "synthesized_at_top recs stmts =
     rev (map (\<lambda>p. ownedImport (fst p) (snd p))
            (filter (\<lambda>p. original_of (snd p) \<notin> set stmts) recs))"

definition with_imports :: "(nat \<times> TypeImport) list \<Rightarrow> node list \<Rightarrow> node list" where
  "with_imports recs stmts = concat (map (\<lambda>s. synthesized_for recs s @ [s]) stmts)"

definition synthesizeImports_spec ::
  "bool \<Rightarrow> (nat \<times> TypeImport) list \<Rightarrow> node list \<Rightarrow> node list" where
  "synthesizeImports_spec isCommonJS recs stmts =
     (let needed = filter (\<lambda>p. needs_import isCommonJS (snd p)) recs
      in synthesized_at_top needed stmts @ with_imports needed stmts)"

text \<open>
  No import synthesized for the numbered records \<open>qs\<close> is the node \<open>D\<close>; and the
  statements after the records \<open>qs\<close>, all needing an import, have been processed.
\<close>

definition fresh_for :: "(nat \<times> TypeImport) list \<Rightarrow> node \<Rightarrow> bool" where
  "fresh_for qs D = list_all (\<lambda>p. ownedImport (fst p) (snd p) \<noteq> D) qs"

definition place :: "(nat \<times> TypeImport) list \<Rightarrow> node list \<Rightarrow> node list" where
  "place qs stmts = synthesized_at_top qs stmts @ with_imports qs stmts"

section \<open>Running the pass again\<close>

text \<open>
  The pass applied to its own output, and the import declarations of a module that bind
  a given local name.
\<close>

definition transformTwice ::
  "compiler_options \<Rightarrow> bool option \<Rightarrow> source_file \<Rightarrow> error + source_file" where
  "transformTwice opts emitStandardMetadata sourceFile =
     (case transformSourceFile opts emitStandardMetadata sourceFile of
        Inl e \<Rightarrow> Inl e
      | Inr sourceFile' \<Rightarrow> transformSourceFile opts emitStandardMetadata sourceFile')"

fun binds_local :: "string \<Rightarrow> node \<Rightarrow> bool" where
  "binds_local n (ImportDeclaration decl) =
     (case importClause decl of
        None \<Rightarrow> False
      | Some clause \<Rightarrow>
          (case namedBindings clause of
             None \<Rightarrow> False
           | Some (NamedImports elements) \<Rightarrow> list_ex (\<lambda>b. spec_name b = n) elements
           | Some (NamespaceImport ns) \<Rightarrow> ns = n))"
| "binds_local n _ = False"

definition alias_imports :: "string \<Rightarrow> source_file \<Rightarrow> node list" where
  "alias_imports n sourceFile = filter (binds_local n) (statements sourceFile)"

section \<open>The bindings of a module\<close>

text \<open>
  The name a specifier imports, \<open>binding.propertyName?.text ?? binding.name.text\<close>; the
  bindings of an import declaration, each as the pair of its local name and the name it
  imports (a namespace import imports under its own name); and the bindings of all import
  declarations of a syntax tree, in the order of the visit.
\<close>

definition imported_name :: "import_specifier \<Rightarrow> string" where
  "imported_name binding =
     (case spec_propertyName binding of Some p \<Rightarrow> p | None \<Rightarrow> spec_name binding)"

definition declaration_bindings :: "import_declaration \<Rightarrow> (string \<times> string) list" where
  "declaration_bindings decl =
     (case importClause decl of
        None \<Rightarrow> []
      | Some clause \<Rightarrow>
          (case namedBindings clause of
             None \<Rightarrow> []
           | Some (NamedImports elements) \<Rightarrow>
               map (\<lambda>b. (spec_name b, imported_name b)) elements
           | Some (NamespaceImport n) \<Rightarrow> [(n, n)]))"

fun import_bindings :: "node \<Rightarrow> (string \<times> string) list"
and import_bindings_list :: "node list \<Rightarrow> (string \<times> string) list" where
  "import_bindings (ImportDeclaration decl) = declaration_bindings decl"
| "import_bindings (ClassDeclaration decs mods nm members) = import_bindings_list members"
| "import_bindings (PropertyDeclaration decs mods nm type) = []"
| "import_bindings (MethodDeclaration decs mods nm parameters type returnFlags body) =
     import_bindings_list body"
| "import_bindings (ConstructorDeclaration parameters body) = import_bindings_list body"
| "import_bindings (OtherNode text children) = import_bindings_list children"
| "import_bindings_list [] = []"
| "import_bindings_list (n # ns) = import_bindings n @ import_bindings_list ns"

text \<open>
  No imported name is bound under two different local names.
\<close>

definition one_local_name_per_import :: "(string \<times> string) list \<Rightarrow> bool" where
  "one_local_name_per_import bs =
     list_all (\<lambda>p. list_all (\<lambda>q. snd p = snd q \<longrightarrow> fst p = fst q) bs) bs"

text \<open>
  The keys of the map are distinct, and every record is stored under its own name with,
  as local name, the imported name of one of the bindings \<open>bs\<close> of that name followed
  by the marker.
\<close>

definition records_from :: "(string \<times> string) list \<Rightarrow> import_map \<Rightarrow> bool" where
  "records_from bs importMap =
     (distinct (map fst importMap)
      \<and> list_all (\<lambda>p. name (snd p) = fst p
                       \<and> list_ex (\<lambda>q. fst q = fst p \<and> localName (snd p) = snd q @ Phi) bs)
           importMap)"

section \<open>The host state\<close>

text \<open>
  The state of the host the pass can reach: the compiler options object and the arrays
  of statements, by address; \<open>nextAddress\<close> is the first address not yet in use, so the
  objects that exist before a call are those below it. The rest of the host's state, the
  type-checking context included, is the extension part of the record: the pass only
  queries it. A source file object refers to
  its array of statements. Syntax nodes themselves are values: the pass has no statement
  that writes to a node, it builds new nodes with \<open>ts.factory\<close>; what the type checker
  answers for a method is part of the method node.
\<close>

record host_state =
  compilerOptions :: compiler_options
  nodeArrays :: "nat \<Rightarrow> node list option"
  nextAddress :: nat

record source_file_object =
  statementsAt :: nat
  declarationFile :: bool

text \<open>A new array: a spread \<open>[x, ...xs]\<close>, \<open>Array.from\<close>, or the result of a visit.\<close>

definition newArray ::
  "node list \<Rightarrow> 'a host_state_scheme \<Rightarrow> nat \<times> 'a host_state_scheme" where
  "newArray xs h =
     (nextAddress h,
      h\<lparr>nodeArrays := (nodeArrays h)(nextAddress h \<mapsto> xs),
        nextAddress := Suc (nextAddress h)\<rparr>)"

text \<open>\<open>transformer(program)\<close> on the host state.\<close>

definition createTransformer ::
  "'a host_state_scheme \<Rightarrow> 'a host_state_scheme \<times> bool option" where
  "createTransformer h =
     (let (opts', emitStandardMetadata) = transformer (compilerOptions h)
      in (h\<lparr>compilerOptions := opts'\<rparr>, emitStandardMetadata))"

text \<open>
  The loop of \<open>generateImports\<close> on the array it is given: every \<open>splice\<close> writes to
  that array in place.
\<close>

fun generateImports_loop_at ::
  "bool \<Rightarrow> (nat \<times> TypeImport) list \<Rightarrow> nat \<Rightarrow> 'a host_state_scheme
     \<Rightarrow> 'a host_state_scheme" where
  "generateImports_loop_at isCommonJS [] a h = h"
| "generateImports_loop_at isCommonJS (ir # rest) a h =
     generateImports_loop_at isCommonJS rest a
       (case nodeArrays h a of
          None \<Rightarrow> h
        | Some xs \<Rightarrow>
            h\<lparr>nodeArrays := (nodeArrays h)(a \<mapsto> generateImports_step isCommonJS ir xs)\<rparr>)"

text \<open>
  The function returned for a source file, on the host state: the spread at the start
  makes a new array, the visit returns the same array or a new one, \<open>Array.from\<close> makes
  the copy that \<open>generateImports\<close> splices into, and the returned source file refers to
  that copy.
\<close>

definition transformSourceFile_at ::
  "bool option \<Rightarrow> source_file_object \<Rightarrow> 'a host_state_scheme
     \<Rightarrow> (error + source_file_object) \<times> 'a host_state_scheme" where
  "transformSourceFile_at emitStandardMetadata sourceFile h =
     (case nodeArrays h (statementsAt sourceFile) of
        None \<Rightarrow> (Inl (TypeError ''undefined is not iterable''), h)
      | Some stmts \<Rightarrow>
          (let (a1, h1) = newArray (rtHelper # stmts) h;
               sourceFile1 = sourceFile\<lparr>statementsAt := a1\<rparr>
           in case visitNodes (compilerOptions h1) emitStandardMetadata (rtHelper # stmts) [] of
                Inl e \<Rightarrow> (Inl e, h1)
              | Inr (visited, importMap) \<Rightarrow>
                  (let (a2, h2) = (if visited = rtHelper # stmts then (a1, h1)
                                   else newArray visited h1);
                       (a3, h3) = newArray visited h2;
                       h4 = generateImports_loop_at
                              (module_kind_option (compilerOptions h3) = CommonJS)
                              (numbered_records importMap visited) a3 h3
                   in (Inr (sourceFile1\<lparr>statementsAt := a3\<rparr>), h4))))"

text \<open>
  The second state has the options and the extension part of the first and, at every
  address in use in the first, the same array.
\<close>

definition frame :: "'a host_state_scheme \<Rightarrow> 'a host_state_scheme \<Rightarrow> bool" where
  "frame h h' =
     (compilerOptions h' = compilerOptions h
      \<and> host_state.more h' = host_state.more h
      \<and> nextAddress h \<le> nextAddress h'
      \<and> (\<forall>a<nextAddress h. nodeArrays h' a = nodeArrays h a))"

section \<open>Theorems\<close>

lemma some_kind_set: "some_kind k l \<longleftrightarrow> k \<in> set l"
  by (auto simp: some_kind_def list_ex_iff)

text \<open>
  C2. For every modifier list, absent and empty ones included, \<open>getVisibility\<close> returns
  exactly one visibility code (one of the three single-character codes), chosen by first
  match in the order public, private, protected, and the public code when the list holds
  no visibility modifier.
\<close>

theorem getVisibility_precedence:
  "getVisibility ms \<in> {F_PUBLIC, F_PRIVATE, F_PROTECTED}
   \<and> length (getVisibility ms) = 1
   \<and> (PublicKeyword \<in> modifier_kinds ms \<longrightarrow> getVisibility ms = F_PUBLIC)
   \<and> (PublicKeyword \<notin> modifier_kinds ms \<and> PrivateKeyword \<in> modifier_kinds ms
        \<longrightarrow> getVisibility ms = F_PRIVATE)
   \<and> (PublicKeyword \<notin> modifier_kinds ms \<and> PrivateKeyword \<notin> modifier_kinds ms
        \<and> ProtectedKeyword \<in> modifier_kinds ms \<longrightarrow> getVisibility ms = F_PROTECTED)
   \<and> (PublicKeyword \<notin> modifier_kinds ms \<and> PrivateKeyword \<notin> modifier_kinds ms
        \<and> ProtectedKeyword \<notin> modifier_kinds ms \<longrightarrow> getVisibility ms = F_PUBLIC)"
  by (cases ms)
     (simp_all add: getVisibility_def modifier_kinds_def some_kind_set
        F_PUBLIC_def F_PRIVATE_def F_PROTECTED_def)

theorem getVisibility_precedence_witness:
  "getVisibility (Some [ReadonlyKeyword, ProtectedKeyword, PrivateKeyword]) = F_PRIVATE
   \<and> getVisibility (Some [ProtectedKeyword, PublicKeyword]) = F_PUBLIC
   \<and> getVisibility (Some [AbstractKeyword, ProtectedKeyword]) = F_PROTECTED
   \<and> getVisibility (Some []) = F_PUBLIC
   \<and> getVisibility None = F_PUBLIC"
  using getVisibility_precedence [of "Some [ReadonlyKeyword, ProtectedKeyword, PrivateKeyword]"]
    getVisibility_precedence [of "Some [ProtectedKeyword, PublicKeyword]"]
    getVisibility_precedence [of "Some [AbstractKeyword, ProtectedKeyword]"]
    getVisibility_precedence [of "Some []"]
    getVisibility_precedence [of None]
  by (simp add: modifier_kinds_def)

subsection \<open>The type reference serializer\<close>

text \<open>
  C1. For every type node whose kind is not one of the recognized ones (type reference,
  string, number, boolean and big-integer keyword, array type), \<open>serializeTypeRef\<close> in
  extended mode raises the error whose message names the kind, and in coarse mode returns
  the identifier \<open>Object\<close>, leaving the import map as it was.
\<close>

theorem serializeTypeRef_unsupported_kind:
  "kind n \<notin> {TypeReference, StringKeyword, NumberKeyword, BooleanKeyword, BigIntKeyword,
              ArrayType} \<Longrightarrow>
   serializeTypeRef opts importMap (Some n) True
     = Inl (Error (''Failed to serializeTypeRef for kind '' @ SyntaxKind_name (kind n) @ ''!''))
   \<and> serializeTypeRef opts importMap (Some n) False = Inr (Identifier ''Object'', importMap)"
  by (cases n) auto

theorem serializeTypeRef_unsupported_kind_witness:
  "serializeTypeRef \<lparr>emitDecoratorMetadata = None, module_kind_option = ES2015\<rparr> []
       (Some (PlainTypeNode UnionType)) True
     = Inl (Error ''Failed to serializeTypeRef for kind UnionType!'')
   \<and> serializeTypeRef \<lparr>emitDecoratorMetadata = None, module_kind_option = ES2015\<rparr> []
       (Some (PlainTypeNode UnionType)) False
     = Inr (Identifier ''Object'', [])"
  using serializeTypeRef_unsupported_kind
    [of "PlainTypeNode UnionType" "\<lparr>emitDecoratorMetadata = None, module_kind_option = ES2015\<rparr>" "[]"]
  by simp

text \<open>
  \<open>propertyPrepend\<close> has no case for a property access whose object is an identifier,
  which is where its recursion over a property access always arrives: it returns normally
  only on an identifier.
\<close>

lemma propertyPrepend_access_fails:
  "propertyPrepend e (PropertyAccessExpression a n)
     = Inl (Error (''Unsupported expression type '' @ quote @ ''PropertyAccessExpression''
                   @ quote))
   \<or> (\<exists>msg. propertyPrepend e (PropertyAccessExpression a n) = Inl (TypeError msg))"
  by (induction e "PropertyAccessExpression a n" arbitrary: a n rule: propertyPrepend.induct)
    (auto split: sum.splits)

text \<open>
  The part of the CommonJS path that works: a bare identifier naming a tracked named
  import becomes a property access on the dynamic \<open>require\<close> of the import's module, and
  the record is marked.
\<close>

lemma serializeTypeRef_commonjs_bare_named_import:
  assumes "module_kind_option opts = CommonJS"
    and "map_of importMap n = Some impo" and "\<not> isNamespace impo"
  shows "serializeTypeRef opts importMap (Some (TypeReferenceNode (IdentifierName n))) extended
         = Inr (PropertyAccessExpression (require_call (modulePath impo)) n,
                AList.map_entry n (\<lambda>i. i\<lparr>referenced := True\<rparr>) importMap)"
  using assms by (simp add: entityNameExpr_def)

text \<open>
  C5. Under CommonJS, with \<open>A\<close> a tracked named import from module \<open>x\<close>, the dotted
  type reference \<open>A.B\<close> is not serialized to \<open>require('x').A.B\<close>: \<open>serializeTypeRef\<close>
  raises the error of \<open>propertyPrepend\<close>, in either mode.
\<close>

theorem serializeTypeRef_commonjs_dotted_named_import_raises:
  "serializeTypeRef \<lparr>emitDecoratorMetadata = None, module_kind_option = CommonJS\<rparr>
     [(''A'', namedImport_record
        \<lparr>node_id = 1,
         importClause = Some \<lparr>clause_name = None,
                              namedBindings = Some (NamedImports [ImportSpecifier None ''A''])\<rparr>,
         moduleSpecifier = ''x''\<rparr>
        (ImportSpecifier None ''A''))]
     (Some (TypeReferenceNode (QualifiedName (IdentifierName ''A'') ''B''))) extended
   = Inl (Error (''Unsupported expression type '' @ quote @ ''PropertyAccessExpression''
                 @ quote))"
  by (simp add: namedImport_record_def entityNameExpr_def)

subsection \<open>Inferred return types\<close>

text \<open>
  C9. For a method without a return type annotation the return type descriptor is
  \<open>typeToTypeRef\<close> of the checked return type, which reads the smaller table by first
  match: the string bit gives \<open>String\<close>, else the number bit \<open>Number\<close>, else the boolean
  bit \<open>Boolean\<close>, else the void bit \<open>void 0\<close>, else the big-integer bit \<open>BigInt\<close>, and
  every other category, the object bit included, gives \<open>Object\<close>. The path cannot fail
  and does not touch the import map: the method's metadata is produced, with the import
  map left by the parameters and with the forward reference to that table entry under
  \<open>rt:t\<close>, whenever the parameter metadata is, and an error of the method extractor is an
  error of the parameter extractor.
\<close>

theorem inferred_return_type_never_fails:
  "(flags AND TypeFlags_String \<noteq> 0 \<longrightarrow> typeToTypeRef flags = Identifier ''String'')
   \<and> (flags AND TypeFlags_String = 0 \<and> flags AND TypeFlags_Number \<noteq> 0
        \<longrightarrow> typeToTypeRef flags = Identifier ''Number'')
   \<and> (flags AND TypeFlags_String = 0 \<and> flags AND TypeFlags_Number = 0
        \<and> flags AND TypeFlags_Boolean \<noteq> 0
        \<longrightarrow> typeToTypeRef flags = Identifier ''Boolean'')
   \<and> (flags AND TypeFlags_String = 0 \<and> flags AND TypeFlags_Number = 0
        \<and> flags AND TypeFlags_Boolean = 0 \<and> flags AND TypeFlags_Void \<noteq> 0
        \<longrightarrow> typeToTypeRef flags = VoidZero)
   \<and> (flags AND TypeFlags_String = 0 \<and> flags AND TypeFlags_Number = 0
        \<and> flags AND TypeFlags_Boolean = 0 \<and> flags AND TypeFlags_Void = 0
        \<and> flags AND TypeFlags_BigInt \<noteq> 0
        \<longrightarrow> typeToTypeRef flags = Identifier ''BigInt'')
   \<and> (flags AND TypeFlags_String = 0 \<and> flags AND TypeFlags_Number = 0
        \<and> flags AND TypeFlags_Boolean = 0 \<and> flags AND TypeFlags_Void = 0
        \<and> flags AND TypeFlags_BigInt = 0 \<longrightarrow> typeToTypeRef flags = Identifier ''Object'')
   \<and> typeToTypeRef flags \<in> {Identifier ''String'', Identifier ''Number'', Identifier ''Boolean'',
                            VoidZero, Identifier ''BigInt'', Identifier ''Object''}
   \<and> (\<forall>pdecs importMap1.
         extractParamsMetadata opts emitStd importMap parameters = Inr (pdecs, importMap1) \<longrightarrow>
         (\<exists>decs. extractMethodMetadata opts emitStd importMap mods parameters None flags
                   = Inr (decs, importMap1)
                 \<and> metadataDecorator ''rt:t'' (literalNode (forwardRef (typeToTypeRef flags)))
                     \<in> set decs))
   \<and> (\<forall>e. extractMethodMetadata opts emitStd importMap mods parameters None flags = Inl e \<longrightarrow>
         extractParamsMetadata opts emitStd importMap parameters = Inl e)"
  by (auto simp: typeToTypeRef_def extractMethodMetadata_def split: sum.splits)

theorem inferred_return_type_never_fails_witness:
  "typeToTypeRef 4 = Identifier ''String''
   \<and> typeToTypeRef 12 = Identifier ''String''
   \<and> typeToTypeRef 8 = Identifier ''Number''
   \<and> typeToTypeRef 1048592 = Identifier ''Boolean''
   \<and> typeToTypeRef 16384 = VoidZero
   \<and> typeToTypeRef 64 = Identifier ''BigInt''
   \<and> typeToTypeRef 524288 = Identifier ''Object''
   \<and> typeToTypeRef 1048576 = Identifier ''Object''
   \<and> (\<exists>decs. extractMethodMetadata
                  \<lparr>emitDecoratorMetadata = Some False, module_kind_option = CommonJS\<rparr>
                  None [] None [] None 8 = Inr (decs, [])
         \<and> metadataDecorator ''rt:t'' (literalNode (forwardRef (Identifier ''Number'')))
             \<in> set decs)"
proof -
  let ?opts = "\<lparr>emitDecoratorMetadata = Some False, module_kind_option = CommonJS\<rparr>"
  note defs = TypeFlags_String_def TypeFlags_Number_def TypeFlags_Boolean_def
    TypeFlags_Void_def TypeFlags_BigInt_def
  have p: "extractParamsMetadata ?opts None [] []
             = Inr ([metadataDecorator ''rt:p'' (MetaArray [])], [])"
    by (simp add: extractParamsMetadata_def truthy_def)
  have 1: "typeToTypeRef 4 = Identifier ''String''"
    using inferred_return_type_never_fails [of 4 ?opts None "[]" "[]" None]
    by (simp add: defs)
  have 2: "typeToTypeRef 12 = Identifier ''String''"
    using inferred_return_type_never_fails [of 12 ?opts None "[]" "[]" None]
    by (simp add: defs)
  have 3: "typeToTypeRef 8 = Identifier ''Number''"
    using inferred_return_type_never_fails [of 8 ?opts None "[]" "[]" None]
    by (simp add: defs)
  have 4: "typeToTypeRef 1048592 = Identifier ''Boolean''"
    using inferred_return_type_never_fails [of 1048592 ?opts None "[]" "[]" None]
    by (simp add: defs)
  have 5: "typeToTypeRef 16384 = VoidZero"
    using inferred_return_type_never_fails [of 16384 ?opts None "[]" "[]" None]
    by (simp add: defs)
  have 6: "typeToTypeRef 64 = Identifier ''BigInt''"
    using inferred_return_type_never_fails [of 64 ?opts None "[]" "[]" None]
    by (simp add: defs)
  have 7: "typeToTypeRef 524288 = Identifier ''Object''"
    using inferred_return_type_never_fails [of 524288 ?opts None "[]" "[]" None]
    by (simp add: defs)
  have 8: "typeToTypeRef 1048576 = Identifier ''Object''"
    using inferred_return_type_never_fails [of 1048576 ?opts None "[]" "[]" None]
    by (simp add: defs)
  have 9: "\<exists>decs. extractMethodMetadata ?opts None [] None [] None 8 = Inr (decs, [])
         \<and> metadataDecorator ''rt:t'' (literalNode (forwardRef (Identifier ''Number'')))
             \<in> set decs"
    using inferred_return_type_never_fails [of 8 ?opts None "[]" "[]" None] p 3 by auto
  from 1 2 3 4 5 6 7 8 9 show ?thesis by (simp only: simp_thms)
qed

subsection \<open>The host's compiler options\<close>

text \<open>
  C7, as stated, fails: creating the transformer for a program whose options have
  \<open>emitDecoratorMetadata\<close> set leaves the host's options changed.
\<close>

theorem transformer_mutates_options_counterexample:
  "fst (transformer \<lparr>emitDecoratorMetadata = Some True, module_kind_option = ES2015\<rparr>)
     \<noteq> \<lparr>emitDecoratorMetadata = Some True, module_kind_option = ES2015\<rparr>"
  by (simp add: transformer_def)

subsection \<open>Import records\<close>

lemma set_update_subset: "set (AList.update k v al) \<subseteq> insert (k, v) (set al)"
  by (induction al) auto

text \<open>
  C3, as stated, fails. The one declaration
  \<open>import { A as B, A as C, A\<Phi> } from 'x'\<close> gives three records; the first two have
  the same local name, and that local name is the identifier the third binding declares.
\<close>

theorem localName_collision_counterexample:
  "map_sum id (map (\<lambda>p. (name (snd p), localName (snd p))))
     (visitImport
        \<lparr>node_id = 1,
         importClause = Some \<lparr>clause_name = None,
                              namedBindings = Some (NamedImports
                                [ImportSpecifier (Some ''A'') ''B'',
                                 ImportSpecifier (Some ''A'') ''C'',
                                 ImportSpecifier None (''A'' @ Phi)])\<rparr>,
         moduleSpecifier = ''x''\<rparr> [])
   = Inr [(''B'', ''A'' @ Phi), (''C'', ''A'' @ Phi), (''A'' @ Phi, ''A'' @ Phi @ Phi)]"
  by (simp add: visitImport_def namedImport_record_def Phi_def)

text \<open>
  A type reference whose root name has no record is serialized as the name itself, in
  every module kind, and the import map is left as it is; a side-effect import creates
  no record.
\<close>

lemma serializeTypeRef_untracked_root:
  assumes "map_of importMap (getRootNameOfEntityName typeName) = None"
  shows "serializeTypeRef opts importMap (Some (TypeReferenceNode typeName)) extended
         = Inr (entityNameExpr typeName (getRootNameOfEntityName typeName), importMap)"
  using assms by (simp add: assureTypeAvailable_def Let_def)

lemma visitImport_side_effect:
  "importClause decl = None \<Longrightarrow> visitImport decl importMap = Inr importMap"
  by (simp add: visitImport_def)

text \<open>
  C10. A module whose import declaration has a default binding only,
  \<open>import X from 'mod'\<close>, followed by a class with a property of type \<open>X\<close>: the visitor
  raises at the import declaration and the pass produces no module.
\<close>

theorem default_import_aborts_pass:
  "transformSourceFile \<lparr>emitDecoratorMetadata = None, module_kind_option = ES2015\<rparr> None
     \<lparr>statements =
        [ImportDeclaration
           \<lparr>node_id = 1,
            importClause = Some \<lparr>clause_name = Some ''X'', namedBindings = None\<rparr>,
            moduleSpecifier = ''mod''\<rparr>,
         ClassDeclaration None None ''C''
           [PropertyDeclaration None None ''p''
              (Some (TypeReferenceNode (IdentifierName ''X'')))]],
      isDeclarationFile = False\<rparr>
   = Inl (TypeError ''Cannot read properties of undefined (reading kind)'')"
  by (simp add: transformSourceFile_def rtHelper_def visitImport_def)

subsection \<open>The serializer reads no \<open>referenced\<close> flag\<close>

lemma unmark_map_entry [simp]:
  "unmark (AList.map_entry k (\<lambda>i. i\<lparr>referenced := True\<rparr>) m) = unmark m"
  by (induction m) (auto simp: unmark_def)

lemma map_of_unmark:
  "map_of (unmark m) k = map_option (\<lambda>r. r\<lparr>referenced := False\<rparr>) (map_of m k)"
  by (induction m) (auto simp: unmark_def)

lemma unmark_static:
  assumes "unmark m = unmark m'"
  shows "map_option static_fields (map_of m k) = map_option static_fields (map_of m' k)"
proof -
  have s: "static_fields (r\<lparr>referenced := False\<rparr>) = static_fields r" for r
    by (simp add: static_fields_def)
  have "map_option static_fields (map_of (unmark m) k) = map_option static_fields (map_of m k)" for m
    by (simp add: map_of_unmark option.map_comp comp_def s)
  with assms show ?thesis by metis
qed

lemma assureTypeAvailable_unmark [simp]:
  "unmark (snd (assureTypeAvailable m tn)) = unmark m"
  by (simp add: assureTypeAvailable_def Let_def split: option.splits)

lemma serializeTypeRef_unmark:
  "serializeTypeRef opts m t ext = Inr (e, m') \<Longrightarrow> unmark m' = unmark m"
proof (induction opts m t ext arbitrary: e m' rule: serializeTypeRef.induct)
  case (2 opts importMap typeName extended)
  then show ?case
    by (auto simp: Let_def split: if_splits option.splits sum.splits prod.splits)
      (metis assureTypeAvailable_unmark snd_conv unmark_map_entry)+
next
  case (3 opts importMap elementType extended)
  then show ?case by (auto split: if_splits sum.splits)
qed (auto split: if_splits)

lemma typeref_expr_static:
  assumes "map_option static_fields (map_of m (getRootNameOfEntityName tn))
           = map_option static_fields (map_of m' (getRootNameOfEntityName tn))"
  shows "map_sum id fst (serializeTypeRef opts m (Some (TypeReferenceNode tn)) ext)
         = map_sum id fst (serializeTypeRef opts m' (Some (TypeReferenceNode tn)) ext)"
  using assms
  by (cases "map_of m (getRootNameOfEntityName tn)"; cases "map_of m' (getRootNameOfEntityName tn)")
    (auto simp: Let_def assureTypeAvailable_def static_fields_def AList.map_of_map_entry
       split: sum.splits prod.splits)

lemma serializeTypeRef_expr_unmark:
  "unmark m = unmark m' \<Longrightarrow>
   map_sum id fst (serializeTypeRef opts m t ext) = map_sum id fst (serializeTypeRef opts m' t ext)"
proof (induction opts m t ext arbitrary: m' rule: serializeTypeRef.induct)
  case (2 opts importMap typeName extended)
  then show ?case by (intro typeref_expr_static unmark_static)
next
  case (3 opts importMap elementType extended)
  have ih: "map_sum id fst (serializeTypeRef opts importMap (Some elementType) True)
            = map_sum id fst (serializeTypeRef opts m' (Some elementType) True)" if "extended"
    using "3.IH" [OF that "3.prems"] .
  show ?case
  proof (cases extended)
    case True
    with ih show ?thesis by (auto split: sum.splits)
  next
    case False
    then show ?thesis by simp
  qed
qed auto


lemma serializeTypeRef_same_expr:
  assumes "unmark m = unmark m'" and "serializeTypeRef opts m t ext = Inr (e, m1)"
  shows "\<exists>m1'. serializeTypeRef opts m' t ext = Inr (e, m1')"
  using serializeTypeRef_expr_unmark [OF assms(1), of opts t ext] assms(2)
  by (cases "serializeTypeRef opts m' t ext") auto

lemma extractParams_loop_result:
  assumes "extractParams_loop opts ps std ser m = Inr (std', ser', m')"
    and "unmark m = unmark m0"
  shows "\<exists>ts. length ts = length ps
          \<and> ser' = ser @ map (\<lambda>(p, t). literalNode (serialize (param_meta p t))) (zip ps ts)
          \<and> (\<forall>i<length ps.
                (\<exists>m1. serializeTypeRef opts m0 (param_type (ps ! i)) True = Inr (ts ! i, m1)))"
  using assms
proof (induction ps arbitrary: std ser m)
  case Nil
  then show ?case by simp
next
  case (Cons p ps)
  from Cons.prems(1) obtain x m1 t m2 where
    c: "serializeTypeRef opts m (param_type p) False = Inr (x, m1)" and
    e: "serializeTypeRef opts m1 (param_type p) True = Inr (t, m2)" and
    r: "extractParams_loop opts ps (std @ [x])
          (ser @ [literalNode (serialize (param_meta p t))]) m2 = Inr (std', ser', m')"
    by (auto split: sum.splits)
  have u1: "unmark m1 = unmark m0"
    using serializeTypeRef_unmark [OF c] Cons.prems(2) by simp
  have u2: "unmark m2 = unmark m0"
    using serializeTypeRef_unmark [OF e] u1 by simp
  have t0: "\<exists>m1. serializeTypeRef opts m0 (param_type p) True = Inr (t, m1)"
    using serializeTypeRef_same_expr [OF u1 e] .
  from Cons.IH [OF r u2] obtain ts where
    l: "length ts = length ps" and
    s: "ser' = (ser @ [literalNode (serialize (param_meta p t))])
               @ map (\<lambda>(p, t). literalNode (serialize (param_meta p t))) (zip ps ts)" and
    a: "\<forall>i<length ps.
          \<exists>m1. serializeTypeRef opts m0 (param_type (ps ! i)) True = Inr (ts ! i, m1)"
    by blast
  have "\<forall>i<length (p # ps).
          \<exists>m1. serializeTypeRef opts m0 (param_type ((p # ps) ! i)) True
                  = Inr ((t # ts) ! i, m1)"
    using t0 a by (simp add: nth_Cons split: nat.splits)
  with l s show ?case
    by (intro exI [of _ "t # ts"]) simp
qed

lemma modifier_flags_mem:
  "F_READONLY \<in> set (modifier_flags k) \<longleftrightarrow> k = ReadonlyKeyword"
  "F_PRIVATE \<in> set (modifier_flags k) \<longleftrightarrow> k = PrivateKeyword"
  "F_PUBLIC \<in> set (modifier_flags k) \<longleftrightarrow> k = PublicKeyword"
  "F_PROTECTED \<in> set (modifier_flags k) \<longleftrightarrow> k = ProtectedKeyword"
  "F_OPTIONAL \<notin> set (modifier_flags k)"
  by (auto simp: modifier_flags_def F_READONLY_def F_PRIVATE_def F_PUBLIC_def F_PROTECTED_def
      F_OPTIONAL_def)

lemma modifier_flags_Nil:
  "modifier_flags k = [] \<longleftrightarrow>
   k \<notin> {ReadonlyKeyword, PrivateKeyword, PublicKeyword, ProtectedKeyword}"
  by (auto simp: modifier_flags_def)

lemma param_flags_mem:
  "(F_READONLY \<in> set (param_flags p) \<longleftrightarrow> ReadonlyKeyword \<in> modifier_kinds (param_modifiers p))
   \<and> (F_PRIVATE \<in> set (param_flags p) \<longleftrightarrow> PrivateKeyword \<in> modifier_kinds (param_modifiers p))
   \<and> (F_PUBLIC \<in> set (param_flags p) \<longleftrightarrow> PublicKeyword \<in> modifier_kinds (param_modifiers p))
   \<and> (F_PROTECTED \<in> set (param_flags p)
        \<longleftrightarrow> ProtectedKeyword \<in> modifier_kinds (param_modifiers p))
   \<and> (F_OPTIONAL \<in> set (param_flags p) \<longleftrightarrow> questionToken p)"
proof -
  have o: "F_READONLY \<noteq> F_OPTIONAL" "F_PRIVATE \<noteq> F_OPTIONAL" "F_PUBLIC \<noteq> F_OPTIONAL"
    "F_PROTECTED \<noteq> F_OPTIONAL"
    by (simp_all add: F_READONLY_def F_PRIVATE_def F_PUBLIC_def F_PROTECTED_def F_OPTIONAL_def)
  show ?thesis
    by (cases "param_modifiers p")
      (auto simp: param_flags_def modifier_kinds_def modifier_flags_mem o)
qed

lemma param_flags_Nil:
  "param_flags p = [] \<longleftrightarrow>
     modifier_kinds (param_modifiers p)
       \<inter> {ReadonlyKeyword, PrivateKeyword, PublicKeyword, ProtectedKeyword} = {}
     \<and> \<not> questionToken p"
  by (cases "param_modifiers p")
    (auto simp: param_flags_def modifier_kinds_def modifier_flags_Nil)

text \<open>
  C8. When parameter metadata is emitted for a method or constructor, the descriptor list
  under \<open>rt:p\<close> has one descriptor per declared parameter, in declaration order: the
  descriptor at position \<open>i\<close> is the serialized object with the name of parameter \<open>i\<close>
  under \<open>n\<close>, the forward reference to the extended serialization of its type under
  \<open>t\<close>, and, unless the parameter has none of the modifiers readonly, private, public
  and protected and no question token, the joined flag codes under \<open>f\<close>; a code is
  among them exactly when its modifier (the question token, for the optional code) is
  present.
\<close>

theorem extractParamsMetadata_descriptors:
  assumes "extractParamsMetadata opts emitStd importMap parameters = Inr (decs, importMap')"
  shows "\<exists>descs. hd decs = metadataDecorator ''rt:p'' (MetaArray descs)
          \<and> length descs = length parameters
          \<and> (\<forall>i<length parameters.
               \<exists>t. (\<exists>m1. serializeTypeRef opts importMap (param_type (parameters ! i)) True
                           = Inr (t, m1))
                 \<and> descs ! i = literalNode (serialize (MetaObject
                      ([(''n'', MetaString (param_name (parameters ! i))),
                        (''t'', literalNode (forwardRef t))]
                       @ (if modifier_kinds (param_modifiers (parameters ! i))
                               \<inter> {ReadonlyKeyword, PrivateKeyword, PublicKeyword,
                                   ProtectedKeyword} = {}
                             \<and> \<not> questionToken (parameters ! i)
                          then []
                          else [(''f'', MetaString (concat (param_flags (parameters ! i))))]))))
                 \<and> (F_READONLY \<in> set (param_flags (parameters ! i))
                      \<longleftrightarrow> ReadonlyKeyword \<in> modifier_kinds (param_modifiers (parameters ! i)))
                 \<and> (F_PRIVATE \<in> set (param_flags (parameters ! i))
                      \<longleftrightarrow> PrivateKeyword \<in> modifier_kinds (param_modifiers (parameters ! i)))
                 \<and> (F_PUBLIC \<in> set (param_flags (parameters ! i))
                      \<longleftrightarrow> PublicKeyword \<in> modifier_kinds (param_modifiers (parameters ! i)))
                 \<and> (F_PROTECTED \<in> set (param_flags (parameters ! i))
                      \<longleftrightarrow> ProtectedKeyword \<in> modifier_kinds (param_modifiers (parameters ! i)))
                 \<and> (F_OPTIONAL \<in> set (param_flags (parameters ! i))
                      \<longleftrightarrow> questionToken (parameters ! i)))"
proof -
  from assms obtain std ser where
    l: "extractParams_loop opts parameters [] [] importMap = Inr (std, ser, importMap')" and
    d: "hd decs = metadataDecorator ''rt:p'' (MetaArray ser)"
    by (auto simp: extractParamsMetadata_def split: sum.splits)
  from extractParams_loop_result [OF l refl] obtain ts where
    n: "length ts = length parameters" and
    s: "ser = map (\<lambda>(p, t). literalNode (serialize (param_meta p t))) (zip parameters ts)" and
    a: "\<forall>i<length parameters.
          \<exists>m1. serializeTypeRef opts importMap (param_type (parameters ! i)) True
                  = Inr (ts ! i, m1)"
    by auto
  have m: "param_meta p t = MetaObject
             ([(''n'', MetaString (param_name p)), (''t'', literalNode (forwardRef t))]
              @ (if modifier_kinds (param_modifiers p)
                      \<inter> {ReadonlyKeyword, PrivateKeyword, PublicKeyword, ProtectedKeyword} = {}
                    \<and> \<not> questionToken p
                 then [] else [(''f'', MetaString (concat (param_flags p)))]))" for p t
    using param_flags_Nil [of p] by (simp add: param_meta_def Let_def)
  show ?thesis
  proof (intro exI [of _ ser] conjI allI impI)
    show "hd decs = metadataDecorator ''rt:p'' (MetaArray ser)" by (rule d)
    show "length ser = length parameters" using n s by simp
  next
    fix i assume i: "i < length parameters"
    have "ser ! i = literalNode (serialize (param_meta (parameters ! i) (ts ! i)))"
      using i n s by simp
    with a i m [of "parameters ! i" "ts ! i"] param_flags_mem [of "parameters ! i"]
    show "\<exists>t. (\<exists>m1. serializeTypeRef opts importMap (param_type (parameters ! i)) True
                           = Inr (t, m1))
                 \<and> ser ! i = literalNode (serialize (MetaObject
                      ([(''n'', MetaString (param_name (parameters ! i))),
                        (''t'', literalNode (forwardRef t))]
                       @ (if modifier_kinds (param_modifiers (parameters ! i))
                               \<inter> {ReadonlyKeyword, PrivateKeyword, PublicKeyword,
                                   ProtectedKeyword} = {}
                             \<and> \<not> questionToken (parameters ! i)
                          then []
                          else [(''f'', MetaString (concat (param_flags (parameters ! i))))]))))
                 \<and> (F_READONLY \<in> set (param_flags (parameters ! i))
                      \<longleftrightarrow> ReadonlyKeyword \<in> modifier_kinds (param_modifiers (parameters ! i)))
                 \<and> (F_PRIVATE \<in> set (param_flags (parameters ! i))
                      \<longleftrightarrow> PrivateKeyword \<in> modifier_kinds (param_modifiers (parameters ! i)))
                 \<and> (F_PUBLIC \<in> set (param_flags (parameters ! i))
                      \<longleftrightarrow> PublicKeyword \<in> modifier_kinds (param_modifiers (parameters ! i)))
                 \<and> (F_PROTECTED \<in> set (param_flags (parameters ! i))
                      \<longleftrightarrow> ProtectedKeyword \<in> modifier_kinds (param_modifiers (parameters ! i)))
                 \<and> (F_OPTIONAL \<in> set (param_flags (parameters ! i))
                      \<longleftrightarrow> questionToken (parameters ! i))"
      by (intro exI [of _ "ts ! i"]) simp
  qed
qed

theorem extractParamsMetadata_descriptors_witness:
  "extractParamsMetadata \<lparr>emitDecoratorMetadata = None, module_kind_option = CommonJS\<rparr> None []
     [\<lparr>param_modifiers = None, param_name = ''count'', questionToken = False,
       param_type = Some (PlainTypeNode NumberKeyword)\<rparr>,
      \<lparr>param_modifiers = Some [PrivateKeyword], param_name = ''optionalName'',
       questionToken = True, param_type = Some (PlainTypeNode StringKeyword)\<rparr>]
   = Inr ([metadataDecorator ''rt:p'' (MetaArray
            [literalNode (serialize (MetaObject
               [(''n'', MetaString ''count''),
                (''t'', literalNode (forwardRef (Identifier ''Number'')))])),
             literalNode (serialize (MetaObject
               [(''n'', MetaString ''optionalName''),
                (''t'', literalNode (forwardRef (Identifier ''String''))),
                (''f'', MetaString (F_PRIVATE @ F_OPTIONAL))]))])], [])
   \<and> (\<exists>descs. metadataDecorator ''rt:p'' (MetaArray
            [literalNode (serialize (MetaObject
               [(''n'', MetaString ''count''),
                (''t'', literalNode (forwardRef (Identifier ''Number'')))])),
             literalNode (serialize (MetaObject
               [(''n'', MetaString ''optionalName''),
                (''t'', literalNode (forwardRef (Identifier ''String''))),
                (''f'', MetaString (F_PRIVATE @ F_OPTIONAL))]))])
          = metadataDecorator ''rt:p'' (MetaArray descs) \<and> length descs = 2)"
proof -
  let ?opts = "\<lparr>emitDecoratorMetadata = None, module_kind_option = CommonJS\<rparr>"
  let ?ps = "[\<lparr>param_modifiers = None, param_name = ''count'', questionToken = False,
       param_type = Some (PlainTypeNode NumberKeyword)\<rparr>,
      \<lparr>param_modifiers = Some [PrivateKeyword], param_name = ''optionalName'',
       questionToken = True, param_type = Some (PlainTypeNode StringKeyword)\<rparr>]"
  have h: "extractParamsMetadata ?opts None [] ?ps
   = Inr ([metadataDecorator ''rt:p'' (MetaArray
            [literalNode (serialize (MetaObject
               [(''n'', MetaString ''count''),
                (''t'', literalNode (forwardRef (Identifier ''Number'')))])),
             literalNode (serialize (MetaObject
               [(''n'', MetaString ''optionalName''),
                (''t'', literalNode (forwardRef (Identifier ''String''))),
                (''f'', MetaString (F_PRIVATE @ F_OPTIONAL))]))])], [])"
    by (simp add: extractParamsMetadata_def truthy_def param_meta_def param_flags_def
        modifier_flags_def)
  from extractParamsMetadata_descriptors [OF h] obtain descs where
    d: "hd [metadataDecorator ''rt:p'' (MetaArray
            [literalNode (serialize (MetaObject
               [(''n'', MetaString ''count''),
                (''t'', literalNode (forwardRef (Identifier ''Number'')))])),
             literalNode (serialize (MetaObject
               [(''n'', MetaString ''optionalName''),
                (''t'', literalNode (forwardRef (Identifier ''String''))),
                (''f'', MetaString (F_PRIVATE @ F_OPTIONAL))]))])]
        = metadataDecorator ''rt:p'' (MetaArray descs)" and
    l: "length descs = length ?ps"
    by blast
  from l have "length descs = 2" by simp
  with d h show ?thesis by (intro conjI exI [of _ descs]) simp_all
qed

subsection \<open>Import synthesis\<close>

lemma indexOf_notin: "x \<notin> set xs \<Longrightarrow> indexOf xs x = - 1"
  by (induction xs) auto

lemma indexOf_nonneg: "x \<in> set xs \<Longrightarrow> indexOf xs x \<ge> 0"
  by (induction xs) (auto simp: Let_def)

lemma indexOf_first: "x \<notin> set xs \<Longrightarrow> indexOf (xs @ x # ys) x = int (length xs)"
  by (induction xs) (auto simp: Let_def)

lemma splice_in_append: "splice_in (xs @ ys) (int (length xs)) x = xs @ x # ys"
  by (simp add: splice_in_def)

lemma splice_in_0: "splice_in xs 0 x = x # xs"
  by (simp add: splice_in_def)

lemma import_id_in_ids: "ImportDeclaration d \<in> set ss \<Longrightarrow> node_id d \<in> set (node_list_ids ss)"
  by (induction ss) auto

lemma with_imports_Cons:
  "with_imports recs (s # ss) = synthesized_for recs s @ s # with_imports recs ss"
  by (simp add: with_imports_def)

lemma with_imports_Nil [simp]: "with_imports recs [] = []" "with_imports [] ss = ss"
  by (induction ss) (simp_all add: with_imports_def synthesized_for_def)

lemma synthesized_for_snoc:
  "synthesized_for (qs @ [ir]) s
     = synthesized_for qs s @ (if original_of (snd ir) = s then [ownedImport (fst ir) (snd ir)] else [])"
  by (simp add: synthesized_for_def)

lemma with_imports_snoc_notin:
  "original_of (snd ir) \<notin> set ss \<Longrightarrow> with_imports (qs @ [ir]) ss = with_imports qs ss"
  by (induction ss) (auto simp: with_imports_Cons synthesized_for_snoc)

lemma notin_synthesized_for: "fresh_for qs D \<Longrightarrow> D \<notin> set (synthesized_for qs s)"
  by (auto simp: fresh_for_def synthesized_for_def list_all_iff)

lemma notin_synthesized_at_top: "fresh_for qs D \<Longrightarrow> D \<notin> set (synthesized_at_top qs ss)"
  by (auto simp: fresh_for_def synthesized_at_top_def list_all_iff)

lemma notin_with_imports:
  "fresh_for qs D \<Longrightarrow> D \<notin> set ss \<Longrightarrow> D \<notin> set (with_imports qs ss)"
  by (induction ss) (auto simp: with_imports_Cons notin_synthesized_for)

lemma with_imports_insert:
  assumes "distinct (node_list_ids ss)"
    and "original_of (snd ir) \<in> set ss"
    and "fresh_for qs (original_of (snd ir))"
  shows "\<exists>pre post. with_imports qs ss = pre @ original_of (snd ir) # post
           \<and> original_of (snd ir) \<notin> set pre
           \<and> with_imports (qs @ [ir]) ss
               = pre @ ownedImport (fst ir) (snd ir) # original_of (snd ir) # post"
  using assms
proof (induction ss)
  case Nil
  then show ?case by simp
next
  case (Cons s ss)
  let ?D = "original_of (snd ir)"
  show ?case
  proof (cases "s = ?D")
    case True
    have "?D \<notin> set ss"
      using Cons.prems(1) True import_id_in_ids [of "importDeclaration (snd ir)" ss]
      by (auto simp: original_of_def)
    then have w: "with_imports (qs @ [ir]) ss = with_imports qs ss"
      by (rule with_imports_snoc_notin)
    show ?thesis
      using True w notin_synthesized_for [OF Cons.prems(3), of s]
      by (intro exI [of _ "synthesized_for qs s"] exI [of _ "with_imports qs ss"])
        (simp add: with_imports_Cons synthesized_for_snoc)
  next
    case False
    with Cons.prems have d: "distinct (node_list_ids ss)" and i: "?D \<in> set ss"
      by auto
    from Cons.IH [OF d i Cons.prems(3)] obtain pre post where
      p: "with_imports qs ss = pre @ ?D # post" "?D \<notin> set pre"
         "with_imports (qs @ [ir]) ss = pre @ ownedImport (fst ir) (snd ir) # ?D # post"
      by blast
    show ?thesis
      using False p notin_synthesized_for [OF Cons.prems(3), of s]
      by (intro exI [of _ "synthesized_for qs s @ s # pre"] exI [of _ post])
        (auto simp: with_imports_Cons synthesized_for_snoc)
  qed
qed

lemma synthesized_at_top_snoc:
  "synthesized_at_top (qs @ [ir]) ss
     = (if original_of (snd ir) \<in> set ss then [] else [ownedImport (fst ir) (snd ir)])
       @ synthesized_at_top qs ss"
  by (simp add: synthesized_at_top_def)

lemma step_needed:
  "needs_import cjs (snd ir) \<Longrightarrow>
   generateImports_step cjs ir stmts
     = (if indexOf stmts (original_of (snd ir)) \<ge> 0
        then splice_in stmts (indexOf stmts (original_of (snd ir))) (ownedImport (fst ir) (snd ir))
        else splice_in stmts 0 (ownedImport (fst ir) (snd ir)))"
  by (auto simp: generateImports_step_def needs_import_def Let_def original_of_def)

lemma step_place:
  assumes "distinct (node_list_ids ss)"
    and "fresh_for qs (original_of (snd ir))"
    and "needs_import cjs (snd ir)"
  shows "generateImports_step cjs ir (place qs ss) = place (qs @ [ir]) ss"
proof (cases "original_of (snd ir) \<in> set ss")
  case True
  let ?D = "original_of (snd ir)"
  from with_imports_insert [OF assms(1) True assms(2)] obtain pre post where
    p: "with_imports qs ss = pre @ ?D # post" "?D \<notin> set pre"
       "with_imports (qs @ [ir]) ss = pre @ ownedImport (fst ir) (snd ir) # ?D # post"
    by blast
  let ?X = "synthesized_at_top qs ss @ pre"
  have n: "?D \<notin> set ?X"
    using p(2) notin_synthesized_at_top [OF assms(2)] by simp
  have pl: "place qs ss = ?X @ ?D # post"
    by (simp add: place_def p(1))
  have ix: "indexOf (place qs ss) ?D = int (length ?X)"
    unfolding pl using n by (rule indexOf_first)
  have "generateImports_step cjs ir (place qs ss)
          = splice_in (?X @ ?D # post) (int (length ?X)) (ownedImport (fst ir) (snd ir))"
    using ix pl by (simp add: step_needed [OF assms(3)])
  also have "\<dots> = ?X @ ownedImport (fst ir) (snd ir) # ?D # post"
    by (rule splice_in_append)
  also have "\<dots> = place (qs @ [ir]) ss"
    using True by (simp add: place_def p(3) synthesized_at_top_snoc)
  finally show ?thesis .
next
  case False
  let ?D = "original_of (snd ir)"
  have "?D \<notin> set (place qs ss)"
    using False notin_synthesized_at_top [OF assms(2)] notin_with_imports [OF assms(2) False]
    by (simp add: place_def)
  then have ix: "indexOf (place qs ss) ?D = - 1"
    by (rule indexOf_notin)
  have "generateImports_step cjs ir (place qs ss)
          = ownedImport (fst ir) (snd ir) # place qs ss"
    using ix by (simp add: step_needed [OF assms(3)] splice_in_0)
  also have "\<dots> = place (qs @ [ir]) ss"
    using False by (simp add: place_def synthesized_at_top_snoc with_imports_snoc_notin)
  finally show ?thesis .
qed

lemma step_skip:
  "\<not> needs_import cjs (snd ir) \<Longrightarrow> generateImports_step cjs ir stmts = stmts"
  by (auto simp: generateImports_step_def needs_import_def Let_def)

lemma loop_place:
  assumes "distinct (node_list_ids ss)"
    and "list_all (\<lambda>ir. fresh_for (qs @ rs) (original_of (snd ir))) rs"
  shows "generateImports_loop cjs rs (place qs ss)
           = place (qs @ filter (\<lambda>p. needs_import cjs (snd p)) rs) ss"
  using assms(2)
proof (induction rs arbitrary: qs)
  case Nil
  then show ?case by simp
next
  case (Cons ir rs)
  have f1: "fresh_for qs (original_of (snd ir))"
    using Cons.prems by (simp add: fresh_for_def)
  have f2: "list_all (\<lambda>x. fresh_for ((qs @ [ir]) @ rs) (original_of (snd x))) rs"
    using Cons.prems by simp
  have f3: "list_all (\<lambda>x. fresh_for (qs @ rs) (original_of (snd x))) rs"
    using Cons.prems by (auto simp: fresh_for_def list_all_iff)
  show ?case
  proof (cases "needs_import cjs (snd ir)")
    case True
    with step_place [OF assms(1) f1 True] Cons.IH [OF f2] show ?thesis by simp
  next
    case False
    with step_skip [OF False] Cons.IH [OF f3] show ?thesis by simp
  qed
qed

lemma fold_max_ge: "x \<in> set xs \<Longrightarrow> x \<le> fold max xs (a::nat)"
  by (simp flip: Max.set_eq_fold)

lemma owned_node_id: "ownedImport i r = ImportDeclaration d \<Longrightarrow> node_id d = i"
  by (auto simp: ownedImport_def)

lemma owned_fresh:
  assumes "r' \<in> snd ` set importMap" and "fresh_base importMap stmts \<le> i"
  shows "ownedImport i r \<noteq> original_of r'"
proof
  assume "ownedImport i r = original_of r'"
  then have e: "node_id (importDeclaration r') = i"
    unfolding original_of_def by (rule owned_node_id)
  have "node_id (importDeclaration r')
          \<in> set (map (\<lambda>p. node_id (importDeclaration (snd p))) importMap @ node_list_ids stmts)"
    using assms(1) by auto
  then have "node_id (importDeclaration r') < fresh_base importMap stmts"
    unfolding fresh_base_def less_Suc_eq_le by (rule fold_max_ge)
  with e assms(2) show False by simp
qed

lemma numbered_records_fresh:
  "list_all (\<lambda>ir. fresh_for (numbered_records importMap stmts) (original_of (snd ir)))
     (numbered_records importMap stmts)"
proof -
  have "ownedImport (fst jr) (snd jr) \<noteq> original_of (snd ir)"
    if "ir \<in> set (numbered_records importMap stmts)"
      and "jr \<in> set (numbered_records importMap stmts)" for ir jr
  proof -
    from that(1) have "snd ir \<in> set (map snd importMap)"
      unfolding numbered_records_def enumerate_eq_zip
      by (metis prod.collapse set_zip_rightD)
    then have 1: "snd ir \<in> snd ` set importMap" by simp
    from that(2) have 2: "fresh_base importMap stmts \<le> fst jr"
      by (simp add: numbered_records_def in_set_enumerate_eq)
    from 1 2 show ?thesis by (rule owned_fresh)
  qed
  then show ?thesis by (simp add: list_all_iff fresh_for_def)
qed

text \<open>
  C6. When the import declarations of the statement list are distinct nodes, import
  synthesis returns the statements with, for every record that is referenced (and, under
  CommonJS, is a namespace record), exactly one new import declaration binding the
  record's local name to the module of its original statement: inserted immediately
  before the original statement, after the imports of the earlier records of that same
  statement, or at the top of the list when the original statement is not in it. Records
  that are not referenced, and named records under CommonJS, add nothing.
\<close>

theorem generateImports_positions:
  assumes "distinct (node_list_ids stmts)"
  shows "generateImports opts importMap stmts
         = synthesizeImports_spec (module_kind_option opts = CommonJS)
             (numbered_records importMap stmts) stmts"
proof -
  have "place [] stmts = stmts"
    by (simp add: place_def synthesized_at_top_def)
  with loop_place [OF assms, of "[]" "numbered_records importMap stmts"]
    numbered_records_fresh [of importMap stmts]
  show ?thesis
    by (simp add: generateImports_def synthesizeImports_spec_def place_def Let_def)
qed


theorem generateImports_positions_witness:
  "distinct (node_list_ids
     [rtHelper,
      ImportDeclaration
        \<lparr>node_id = 1,
         importClause = Some \<lparr>clause_name = None,
           namedBindings = Some (NamedImports
             [ImportSpecifier None ''A'', ImportSpecifier None ''B'', ImportSpecifier None ''C''])\<rparr>,
         moduleSpecifier = ''x''\<rparr>])
   \<and> generateImports \<lparr>emitDecoratorMetadata = None, module_kind_option = ES2015\<rparr>
       [(''A'', \<lparr>importDeclaration =
                   \<lparr>node_id = 1,
                    importClause = Some \<lparr>clause_name = None,
                      namedBindings = Some (NamedImports
                        [ImportSpecifier None ''A'', ImportSpecifier None ''B'',
                         ImportSpecifier None ''C''])\<rparr>,
                    moduleSpecifier = ''x''\<rparr>,
                 refName = ''A'', modulePath = ''x'', isNamespace = False, referenced = True,
                 name = ''A'', localName = ''A'' @ Phi\<rparr>),
        (''B'', \<lparr>importDeclaration =
                   \<lparr>node_id = 1,
                    importClause = Some \<lparr>clause_name = None,
                      namedBindings = Some (NamedImports
                        [ImportSpecifier None ''A'', ImportSpecifier None ''B'',
                         ImportSpecifier None ''C''])\<rparr>,
                    moduleSpecifier = ''x''\<rparr>,
                 refName = ''B'', modulePath = ''x'', isNamespace = False, referenced = True,
                 name = ''B'', localName = ''B'' @ Phi\<rparr>),
        (''C'', \<lparr>importDeclaration =
                   \<lparr>node_id = 1,
                    importClause = Some \<lparr>clause_name = None,
                      namedBindings = Some (NamedImports
                        [ImportSpecifier None ''A'', ImportSpecifier None ''B'',
                         ImportSpecifier None ''C''])\<rparr>,
                    moduleSpecifier = ''x''\<rparr>,
                 refName = ''C'', modulePath = ''x'', isNamespace = False, referenced = False,
                 name = ''C'', localName = ''C'' @ Phi\<rparr>),
        (''ns'', \<lparr>importDeclaration =
                   \<lparr>node_id = 2,
                    importClause = Some \<lparr>clause_name = None,
                      namedBindings = Some (NamespaceImport ''ns'')\<rparr>,
                    moduleSpecifier = ''y''\<rparr>,
                 refName = ''ns'', modulePath = ''y'', isNamespace = True, referenced = True,
                 name = ''ns'', localName = ''ns'' @ Phi\<rparr>)]
       [rtHelper,
        ImportDeclaration
          \<lparr>node_id = 1,
           importClause = Some \<lparr>clause_name = None,
             namedBindings = Some (NamedImports
               [ImportSpecifier None ''A'', ImportSpecifier None ''B'',
                ImportSpecifier None ''C''])\<rparr>,
           moduleSpecifier = ''x''\<rparr>]
     = [ImportDeclaration
          \<lparr>node_id = 6,
           importClause = Some \<lparr>clause_name = None,
             namedBindings = Some (NamespaceImport (''ns'' @ Phi))\<rparr>,
           moduleSpecifier = ''y''\<rparr>,
        rtHelper,
        ImportDeclaration
          \<lparr>node_id = 3,
           importClause = Some \<lparr>clause_name = None,
             namedBindings = Some (NamedImports [ImportSpecifier (Some ''A'') (''A'' @ Phi)])\<rparr>,
           moduleSpecifier = ''x''\<rparr>,
        ImportDeclaration
          \<lparr>node_id = 4,
           importClause = Some \<lparr>clause_name = None,
             namedBindings = Some (NamedImports [ImportSpecifier (Some ''B'') (''B'' @ Phi)])\<rparr>,
           moduleSpecifier = ''x''\<rparr>,
        ImportDeclaration
          \<lparr>node_id = 1,
           importClause = Some \<lparr>clause_name = None,
             namedBindings = Some (NamedImports
               [ImportSpecifier None ''A'', ImportSpecifier None ''B'',
                ImportSpecifier None ''C''])\<rparr>,
           moduleSpecifier = ''x''\<rparr>]"
proof -
  let ?d = "\<lparr>node_id = 1,
         importClause = Some \<lparr>clause_name = None,
           namedBindings = Some (NamedImports
             [ImportSpecifier None ''A'', ImportSpecifier None ''B'', ImportSpecifier None ''C''])\<rparr>,
         moduleSpecifier = ''x''\<rparr>"
  let ?opts = "\<lparr>emitDecoratorMetadata = None, module_kind_option = ES2015\<rparr>"
  let ?m = "[(''A'', \<lparr>importDeclaration = ?d, refName = ''A'', modulePath = ''x'',
                    isNamespace = False, referenced = True, name = ''A'',
                    localName = ''A'' @ Phi\<rparr>),
             (''B'', \<lparr>importDeclaration = ?d, refName = ''B'', modulePath = ''x'',
                    isNamespace = False, referenced = True, name = ''B'',
                    localName = ''B'' @ Phi\<rparr>),
             (''C'', \<lparr>importDeclaration = ?d, refName = ''C'', modulePath = ''x'',
                    isNamespace = False, referenced = False, name = ''C'',
                    localName = ''C'' @ Phi\<rparr>),
             (''ns'', \<lparr>importDeclaration =
                        \<lparr>node_id = 2,
                         importClause = Some \<lparr>clause_name = None,
                           namedBindings = Some (NamespaceImport ''ns'')\<rparr>,
                         moduleSpecifier = ''y''\<rparr>,
                     refName = ''ns'', modulePath = ''y'', isNamespace = True,
                     referenced = True, name = ''ns'', localName = ''ns'' @ Phi\<rparr>)]"
  let ?stmts = "[rtHelper, ImportDeclaration ?d]"
  have d: "distinct (node_list_ids ?stmts)"
    by (simp add: rtHelper_def)
  have v: "synthesizeImports_spec (module_kind_option ?opts = CommonJS)
             (numbered_records ?m ?stmts) ?stmts
     = [ImportDeclaration
          \<lparr>node_id = 6,
           importClause = Some \<lparr>clause_name = None,
             namedBindings = Some (NamespaceImport (''ns'' @ Phi))\<rparr>,
           moduleSpecifier = ''y''\<rparr>,
        rtHelper,
        ImportDeclaration
          \<lparr>node_id = 3,
           importClause = Some \<lparr>clause_name = None,
             namedBindings = Some (NamedImports [ImportSpecifier (Some ''A'') (''A'' @ Phi)])\<rparr>,
           moduleSpecifier = ''x''\<rparr>,
        ImportDeclaration
          \<lparr>node_id = 4,
           importClause = Some \<lparr>clause_name = None,
             namedBindings = Some (NamedImports [ImportSpecifier (Some ''B'') (''B'' @ Phi)])\<rparr>,
           moduleSpecifier = ''x''\<rparr>,
        ImportDeclaration ?d]"
    by (simp add: synthesizeImports_spec_def numbered_records_def fresh_base_def
        synthesized_at_top_def with_imports_def synthesized_for_def needs_import_def
        original_of_def ownedImport_def rtHelper_def enumerate_eq_zip upt_rec)
  from d generateImports_positions [OF d, of ?opts ?m] v show ?thesis by (simp only: simp_thms)
qed

subsection \<open>Repeated references and repeated runs\<close>

lemma map_entry_mark_idem:
  "AList.map_entry k (\<lambda>i. i\<lparr>referenced := True\<rparr>) (AList.map_entry k (\<lambda>i. i\<lparr>referenced := True\<rparr>) m)
     = AList.map_entry k (\<lambda>i. i\<lparr>referenced := True\<rparr>) m"
  by (induction m) auto


lemma typeref_again:
  assumes "serializeTypeRef opts m (Some (TypeReferenceNode tn)) ext = Inr (e, m1)"
  shows "serializeTypeRef opts m1 (Some (TypeReferenceNode tn)) ext = Inr (e, m1)"
proof (cases "map_of m (getRootNameOfEntityName tn)")
  case None
  with assms have "m1 = m"
    by (auto simp: Let_def assureTypeAvailable_def split: if_splits)
  with assms show ?thesis by simp
next
  case (Some impo)
  let ?k = "getRootNameOfEntityName tn"
  let ?mk = "AList.map_entry ?k (\<lambda>i. i\<lparr>referenced := True\<rparr>) m"
  have m1: "m1 = ?mk"
    using assms Some
    by (auto simp: Let_def assureTypeAvailable_def AList.map_of_map_entry map_entry_mark_idem
        split: if_splits sum.splits)
  have l: "map_of ?mk ?k = Some (impo\<lparr>referenced := True\<rparr>)"
    using Some by (simp add: AList.map_of_map_entry)
  show ?thesis
    using assms Some l unfolding m1
    by (auto simp: Let_def assureTypeAvailable_def map_entry_mark_idem
        split: if_splits sum.splits)
qed


text \<open>
  C4, amended. Within one run, serializing a type again after it has been serialized
  gives the same expression and leaves the import map as it is: a record that is already
  referenced stays so, and import synthesis, which reads only the map, creates no further
  import for it.
\<close>

theorem serializeTypeRef_again_same_map:
  "serializeTypeRef opts m t ext = Inr (e, m1) \<Longrightarrow> serializeTypeRef opts m1 t ext = Inr (e, m1)"
proof (induction opts m t ext arbitrary: e m1 rule: serializeTypeRef.induct)
  case (1 opts importMap extended)
  then show ?case by simp
next
  case (2 opts importMap typeName extended)
  then show ?case by (rule typeref_again)
next
  case (3 opts importMap elementType extended)
  show ?case
  proof (cases extended)
    case True
    with "3.prems" obtain x where
      s: "serializeTypeRef opts importMap (Some elementType) True = Inr (x, m1)" and
      e: "e = ArrayLiteralExpression [x]"
      by (auto split: sum.splits)
    from "3.IH" [OF True s] True e show ?thesis by simp
  next
    case False
    with "3.prems" show ?thesis by simp
  qed
next
  case (4 opts importMap k extended)
  then show ?case by (simp split: if_splits)
qed


theorem serializeTypeRef_again_same_map_witness:
  "serializeTypeRef \<lparr>emitDecoratorMetadata = None, module_kind_option = ES2015\<rparr>
     [(''A'', \<lparr>importDeclaration =
                 \<lparr>node_id = 1,
                  importClause = Some \<lparr>clause_name = None,
                    namedBindings = Some (NamedImports [ImportSpecifier None ''A''])\<rparr>,
                  moduleSpecifier = ''x''\<rparr>,
               refName = ''A'', modulePath = ''x'', isNamespace = False, referenced = False,
               name = ''A'', localName = ''A'' @ Phi\<rparr>)]
     (Some (ArrayTypeNode (TypeReferenceNode (IdentifierName ''A'')))) True
   = Inr (ArrayLiteralExpression [Identifier (''A'' @ Phi)],
          [(''A'', \<lparr>importDeclaration =
                 \<lparr>node_id = 1,
                  importClause = Some \<lparr>clause_name = None,
                    namedBindings = Some (NamedImports [ImportSpecifier None ''A''])\<rparr>,
                  moduleSpecifier = ''x''\<rparr>,
               refName = ''A'', modulePath = ''x'', isNamespace = False, referenced = True,
               name = ''A'', localName = ''A'' @ Phi\<rparr>)])
   \<and> serializeTypeRef \<lparr>emitDecoratorMetadata = None, module_kind_option = ES2015\<rparr>
     [(''A'', \<lparr>importDeclaration =
                 \<lparr>node_id = 1,
                  importClause = Some \<lparr>clause_name = None,
                    namedBindings = Some (NamedImports [ImportSpecifier None ''A''])\<rparr>,
                  moduleSpecifier = ''x''\<rparr>,
               refName = ''A'', modulePath = ''x'', isNamespace = False, referenced = True,
               name = ''A'', localName = ''A'' @ Phi\<rparr>)]
     (Some (ArrayTypeNode (TypeReferenceNode (IdentifierName ''A'')))) True
   = Inr (ArrayLiteralExpression [Identifier (''A'' @ Phi)],
          [(''A'', \<lparr>importDeclaration =
                 \<lparr>node_id = 1,
                  importClause = Some \<lparr>clause_name = None,
                    namedBindings = Some (NamedImports [ImportSpecifier None ''A''])\<rparr>,
                  moduleSpecifier = ''x''\<rparr>,
               refName = ''A'', modulePath = ''x'', isNamespace = False, referenced = True,
               name = ''A'', localName = ''A'' @ Phi\<rparr>)])"
proof -
  let ?opts = "\<lparr>emitDecoratorMetadata = None, module_kind_option = ES2015\<rparr>"
  let ?r = "\<lambda>b. \<lparr>importDeclaration =
                 \<lparr>node_id = 1,
                  importClause = Some \<lparr>clause_name = None,
                    namedBindings = Some (NamedImports [ImportSpecifier None ''A''])\<rparr>,
                  moduleSpecifier = ''x''\<rparr>,
               refName = ''A'', modulePath = ''x'', isNamespace = False, referenced = b,
               name = ''A'', localName = ''A'' @ Phi\<rparr>"
  let ?t = "Some (ArrayTypeNode (TypeReferenceNode (IdentifierName ''A'')))"
  have h: "serializeTypeRef ?opts [(''A'', ?r False)] ?t True
             = Inr (ArrayLiteralExpression [Identifier (''A'' @ Phi)], [(''A'', ?r True)])"
    by (simp add: assureTypeAvailable_def entityNameExpr_def Let_def)
  from h serializeTypeRef_again_same_map [OF h] show ?thesis by (simp only: simp_thms)
qed

text \<open>
  C4, as stated, fails. The module \<open>import { A } from 'x'; class C { p: A }\<close>, as an
  ES module: the output of the pass has one import declaration binding \<open>A\<Phi>\<close>, and the
  output of the pass run on that output has two.
\<close>

theorem rerun_duplicates_import_counterexample:
  "map_sum id (\<lambda>sf. length (alias_imports (''A'' @ Phi) sf))
     (transformSourceFile \<lparr>emitDecoratorMetadata = None, module_kind_option = ES2015\<rparr> None
        \<lparr>statements =
           [ImportDeclaration
              \<lparr>node_id = 1,
               importClause = Some \<lparr>clause_name = None,
                 namedBindings = Some (NamedImports [ImportSpecifier None ''A''])\<rparr>,
               moduleSpecifier = ''x''\<rparr>,
            ClassDeclaration None None ''C''
              [PropertyDeclaration None None ''p''
                 (Some (TypeReferenceNode (IdentifierName ''A'')))]],
         isDeclarationFile = False\<rparr>) = Inr 1
   \<and> map_sum id (\<lambda>sf. length (alias_imports (''A'' @ Phi) sf))
     (transformTwice \<lparr>emitDecoratorMetadata = None, module_kind_option = ES2015\<rparr> None
        \<lparr>statements =
           [ImportDeclaration
              \<lparr>node_id = 1,
               importClause = Some \<lparr>clause_name = None,
                 namedBindings = Some (NamedImports [ImportSpecifier None ''A''])\<rparr>,
               moduleSpecifier = ''x''\<rparr>,
            ClassDeclaration None None ''C''
              [PropertyDeclaration None None ''p''
                 (Some (TypeReferenceNode (IdentifierName ''A'')))]],
         isDeclarationFile = False\<rparr>) = Inr 2"
proof -
  let ?opts = "\<lparr>emitDecoratorMetadata = None, module_kind_option = ES2015\<rparr>"
  let ?d = "\<lparr>node_id = 1,
             importClause = Some \<lparr>clause_name = None,
               namedBindings = Some (NamedImports [ImportSpecifier None ''A''])\<rparr>,
             moduleSpecifier = ''x''\<rparr>"
  let ?owned = "\<lambda>i. ImportDeclaration
                  \<lparr>node_id = i,
                   importClause = Some \<lparr>clause_name = None,
                     namedBindings = Some (NamedImports
                       [ImportSpecifier (Some ''A'') (''A'' @ Phi)])\<rparr>,
                   moduleSpecifier = ''x''\<rparr>"
  let ?t = "Some (TypeReferenceNode (IdentifierName ''A''))"
  let ?pdecs = "[MetadataDecorator ''rt:t''
                   (LiteralNode (ArrowFunction (Identifier (''A'' @ Phi)))),
                 MetadataDecorator ''rt:f'' (MetaString ''P$'')]"
  let ?cdecs = "[MetadataDecorator ''rt:f'' (MetaString ''C$'')]"
  let ?M = "\<lparr>statements =
              [ImportDeclaration ?d,
               ClassDeclaration None None ''C'' [PropertyDeclaration None None ''p'' ?t]],
            isDeclarationFile = False\<rparr>"
  let ?O1 = "\<lparr>statements =
               [rtHelper, ?owned 2, ImportDeclaration ?d,
                ClassDeclaration (Some ?cdecs) None ''C''
                  [PropertyDeclaration (Some ?pdecs) None ''p'' ?t]],
             isDeclarationFile = False\<rparr>"
  let ?O2 = "\<lparr>statements =
               [rtHelper, rtHelper, ?owned 2, ?owned 4, ImportDeclaration ?d,
                ClassDeclaration (Some (?cdecs @ ?cdecs)) None ''C''
                  [PropertyDeclaration (Some (?pdecs @ ?pdecs)) None ''p'' ?t]],
             isDeclarationFile = False\<rparr>"
  have 1: "transformSourceFile ?opts None ?M = Inr ?O1"
    by (simp add: transformSourceFile_def rtHelper_def visitImport_def namedImport_record_def
        extractClassMetadata_def extractPropertyMetadata_def extractTypeMetadata_def
        assureTypeAvailable_def entityNameExpr_def truthy_def add_decorators_def
        metadataDecorator_def literalNode_def forwardRef_def getVisibility_def isAbstract_def
        isReadOnly_def F_CLASS_def F_PROPERTY_def F_PUBLIC_def
        generateImports_def numbered_records_def fresh_base_def generateImports_step_def
        ownedImport_def splice_in_def enumerate_eq_zip Let_def)
  have 2: "transformSourceFile ?opts None ?O1 = Inr ?O2"
    by (simp add: transformSourceFile_def rtHelper_def visitImport_def namedImport_record_def
        extractClassMetadata_def extractPropertyMetadata_def extractTypeMetadata_def
        assureTypeAvailable_def entityNameExpr_def truthy_def add_decorators_def
        metadataDecorator_def literalNode_def forwardRef_def getVisibility_def isAbstract_def
        isReadOnly_def F_CLASS_def F_PROPERTY_def F_PUBLIC_def
        generateImports_def numbered_records_def fresh_base_def generateImports_step_def
        ownedImport_def splice_in_def enumerate_eq_zip Let_def Phi_def)
  have 3: "length (alias_imports (''A'' @ Phi) ?O1) = 1"
    by (simp add: alias_imports_def rtHelper_def Phi_def)
  have 4: "length (alias_imports (''A'' @ Phi) ?O2) = 2"
    by (simp add: alias_imports_def rtHelper_def Phi_def)
  show ?thesis
    unfolding transformTwice_def 1 using 2 3 4 by simp
qed

subsection \<open>Local names of import records\<close>

lemma records_from_update:
  assumes "records_from bs m" and "(k, b) \<in> set bs" and "name r = k"
    and "localName r = b @ Phi"
  shows "records_from bs (AList.update k r m)"
proof -
  have ok: "name (snd p) = fst p
            \<and> list_ex (\<lambda>q. fst q = fst p \<and> localName (snd p) = snd q @ Phi) bs"
    if "p \<in> set (AList.update k r m)" for p
  proof (cases "p = (k, r)")
    case True
    with assms(2-4) show ?thesis by (force simp: list_ex_iff)
  next
    case False
    with that set_update_subset [of k r m] have "p \<in> set m" by auto
    with assms(1) show ?thesis by (simp add: records_from_def list_all_iff)
  qed
  from assms(1) have "distinct (map fst (AList.update k r m))"
    by (simp add: records_from_def distinct_update)
  with ok show ?thesis by (simp add: records_from_def list_all_iff)
qed

lemma records_from_unmark_self: "records_from bs (unmark m) = records_from bs m"
proof -
  have k: "map fst (unmark m) = map fst m"
    by (simp add: unmark_def comp_def)
  have l: "list_all P (unmark m) = list_all (\<lambda>p. P (fst p, (snd p)\<lparr>referenced := False\<rparr>)) m"
    for P
    by (simp add: unmark_def list.pred_map comp_def)
  show ?thesis
    unfolding records_from_def k l by simp
qed

lemma records_from_unmark:
  assumes "unmark m = unmark m'"
  shows "records_from bs m' = records_from bs m"
  using records_from_unmark_self [of bs m] records_from_unmark_self [of bs m'] assms
  by simp

lemma records_from_fold:
  "records_from bs m \<Longrightarrow> (\<lambda>b. (spec_name b, imported_name b)) ` set els \<subseteq> set bs \<Longrightarrow>
   records_from bs
     (fold (\<lambda>binding. AList.update (spec_name binding) (namedImport_record decl binding)) els m)"
proof (induction els arbitrary: m)
  case Nil
  then show ?case by simp
next
  case (Cons b els)
  have "records_from bs (AList.update (spec_name b) (namedImport_record decl b) m)"
    using Cons.prems
    by (intro records_from_update [where b = "imported_name b"])
      (auto simp: namedImport_record_def imported_name_def)
  with Cons show ?case by simp
qed

lemma records_from_visitImport:
  assumes "records_from bs m" and "set (declaration_bindings decl) \<subseteq> set bs"
    and "visitImport decl m = Inr m'"
  shows "records_from bs m'"
proof (cases "importClause decl")
  case None
  with assms show ?thesis by (simp add: visitImport_def)
next
  case (Some clause)
  show ?thesis
  proof (cases "namedBindings clause")
    case None
    with Some assms(3) show ?thesis by (simp add: visitImport_def)
  next
    case (Some nb)
    show ?thesis
    proof (cases nb)
      case (NamedImports els)
      with \<open>importClause decl = Some clause\<close> Some assms show ?thesis
        by (auto simp: visitImport_def declaration_bindings_def intro!: records_from_fold)
    next
      case (NamespaceImport n)
      with \<open>importClause decl = Some clause\<close> Some assms show ?thesis
        by (auto simp: visitImport_def declaration_bindings_def namespaceImport_record_def
            intro!: records_from_update [where b = n])
    qed
  qed
qed

lemma extractParams_loop_unmark:
  "extractParams_loop opts ps std ser m = Inr (std', ser', m') \<Longrightarrow> unmark m' = unmark m"
proof (induction ps arbitrary: std ser m)
  case Nil
  then show ?case by simp
next
  case (Cons p ps)
  from Cons.prems obtain x m1 t m2 where
    c: "serializeTypeRef opts m (param_type p) False = Inr (x, m1)" and
    e: "serializeTypeRef opts m1 (param_type p) True = Inr (t, m2)" and
    r: "extractParams_loop opts ps (std @ [x])
          (ser @ [literalNode (serialize (param_meta p t))]) m2 = Inr (std', ser', m')"
    by (auto split: sum.splits)
  from Cons.IH [OF r] serializeTypeRef_unmark [OF c] serializeTypeRef_unmark [OF e]
  show ?case by simp
qed

lemma extractParamsMetadata_unmark:
  "extractParamsMetadata opts emitStd m ps = Inr (decs, m') \<Longrightarrow> unmark m' = unmark m"
  by (auto simp: extractParamsMetadata_def split: sum.splits dest: extractParams_loop_unmark)

lemma extractTypeMetadata_unmark:
  "extractTypeMetadata opts emitStd m t nm = Inr (decs, m') \<Longrightarrow> unmark m' = unmark m"
  by (auto simp: extractTypeMetadata_def Let_def split: sum.splits if_splits
      dest!: serializeTypeRef_unmark)

lemma extractClassMetadata_unmark:
  "extractClassMetadata opts emitStd m mods members = Inr (decs, m') \<Longrightarrow> unmark m' = unmark m"
  by (auto simp: extractClassMetadata_def Let_def split: sum.splits option.splits
      dest: extractParamsMetadata_unmark)

lemma extractPropertyMetadata_unmark:
  "extractPropertyMetadata opts emitStd m mods t = Inr (decs, m') \<Longrightarrow> unmark m' = unmark m"
  by (auto simp: extractPropertyMetadata_def split: sum.splits dest: extractTypeMetadata_unmark)

lemma extractMethodMetadata_unmark:
  assumes "extractMethodMetadata opts emitStd m mods ps t fl = Inr (decs, m')"
  shows "unmark m' = unmark m"
proof -
  from assms obtain pdecs m1 where
    p: "extractParamsMetadata opts emitStd m ps = Inr (pdecs, m1)"
    by (auto simp: extractMethodMetadata_def Let_def split: sum.splits)
  have u1: "unmark m1 = unmark m" using p by (rule extractParamsMetadata_unmark)
  show ?thesis
  proof (cases t)
    case None
    with assms p have "m' = m1"
      by (auto simp: extractMethodMetadata_def Let_def)
    with u1 show ?thesis by simp
  next
    case (Some ty)
    with assms p obtain rt m2 tdecs where
      s: "serializeTypeRef opts m1 (Some ty) True = Inr (rt, m2)" and
      e: "extractTypeMetadata opts emitStd m2 (Some ty) ''returntype'' = Inr (tdecs, m')"
      by (auto simp: extractMethodMetadata_def Let_def split: sum.splits)
    from serializeTypeRef_unmark [OF s] extractTypeMetadata_unmark [OF e] u1
    show ?thesis by simp
  qed
qed

lemma records_from_visitor:
  "records_from bs m \<Longrightarrow> set (import_bindings n) \<subseteq> set bs \<Longrightarrow>
   visitor opts emitStd n m = Inr (n', m') \<Longrightarrow> records_from bs m'"
  and records_from_visitNodes:
  "records_from bs m \<Longrightarrow> set (import_bindings_list ns) \<subseteq> set bs \<Longrightarrow>
   visitNodes opts emitStd ns m = Inr (ns', m') \<Longrightarrow> records_from bs m'"
proof (induction opts emitStd n m and opts emitStd ns m arbitrary: n' m' and ns' m'
    rule: visitor_visitNodes.induct)
  case (1 opts emitStd decl importMap)
  from "1.prems"(3) have "visitImport decl importMap = Inr m'"
    by (auto split: sum.splits)
  with "1.prems"(1,2) show ?case by (auto intro: records_from_visitImport)
next
  case (2 opts emitStd decs mods nm type importMap)
  from "2.prems"(3) obtain new where
    c: "extractPropertyMetadata opts emitStd importMap mods type = Inr (new, m')"
    by (auto split: sum.splits)
  show ?case
    using records_from_unmark [OF extractPropertyMetadata_unmark [OF c], of bs] "2.prems"(1)
    by simp
next
  case (3 opts emitStd decs mods nm members importMap)
  from "3.prems"(3) obtain new m1 members' where
    c: "extractClassMetadata opts emitStd importMap mods members = Inr (new, m1)" and
    v: "visitNodes opts emitStd members m1 = Inr (members', m')"
    by (auto split: sum.splits)
  have "records_from bs m1"
    using records_from_unmark [OF extractClassMetadata_unmark [OF c], of bs] "3.prems"(1)
    by simp
  from "3.IH" [OF c refl this _ v] "3.prems"(2) show ?case by simp
next
  case (4 opts emitStd decs mods nm parameters type returnFlags body importMap)
  from "4.prems"(3) obtain new m1 body' where
    c: "extractMethodMetadata opts emitStd importMap mods parameters type returnFlags
          = Inr (new, m1)" and
    v: "visitNodes opts emitStd body m1 = Inr (body', m')"
    by (auto split: sum.splits)
  have "records_from bs m1"
    using records_from_unmark [OF extractMethodMetadata_unmark [OF c], of bs] "4.prems"(1)
    by simp
  from "4.IH" [OF c refl this _ v] "4.prems"(2) show ?case by simp
next
  case (5 opts emitStd parameters body importMap)
  from "5.prems"(3) obtain body' where
    v: "visitNodes opts emitStd body importMap = Inr (body', m')"
    by (auto split: sum.splits)
  from "5.IH" [OF "5.prems"(1) _ v] "5.prems"(2) show ?case by simp
next
  case (6 opts emitStd tx children importMap)
  from "6.prems"(3) obtain children' where
    v: "visitNodes opts emitStd children importMap = Inr (children', m')"
    by (auto split: sum.splits)
  from "6.IH" [OF "6.prems"(1) _ v] "6.prems"(2) show ?case by simp
next
  case (7 opts emitStd importMap)
  then show ?case by simp
next
  case (8 opts emitStd n ns importMap)
  from "8.prems"(3) obtain n1 m1 ns1 where
    a: "visitor opts emitStd n importMap = Inr (n1, m1)" and
    b: "visitNodes opts emitStd ns m1 = Inr (ns1, m')"
    by (auto split: sum.splits)
  have "records_from bs m1"
    using "8.IH"(1) [OF "8.prems"(1) _ a] "8.prems"(2) by simp
  from "8.IH"(2) [OF a refl this _ b] "8.prems"(2) show ?case by simp
qed

lemma records_fromD:
  "records_from bs m \<Longrightarrow> p \<in> set m \<Longrightarrow>
   \<exists>q\<in>set bs. fst q = fst p \<and> localName (snd p) = snd q @ Phi"
  unfolding records_from_def list_all_iff list_ex_iff by blast

lemma one_local_name_per_importD:
  "one_local_name_per_import bs \<Longrightarrow> q \<in> set bs \<Longrightarrow> q' \<in> set bs \<Longrightarrow> snd q = snd q' \<Longrightarrow>
   fst q = fst q'"
  unfolding one_local_name_per_import_def list_all_iff by blast

lemma records_from_distinct:
  assumes "records_from bs m" and "one_local_name_per_import bs"
  shows "distinct (map (\<lambda>p. localName (snd p)) m)"
proof -
  from assms(1) have d: "distinct m" and i: "inj_on fst (set m)"
    unfolding records_from_def distinct_map by blast+
  have inj: "inj_on (\<lambda>p. localName (snd p)) (set m)"
  proof (rule inj_onI)
    fix p p' assume p: "p \<in> set m" and p': "p' \<in> set m"
      and e: "localName (snd p) = localName (snd p')"
    from records_fromD [OF assms(1) p] obtain q where
      q: "q \<in> set bs" "fst q = fst p" "localName (snd p) = snd q @ Phi"
      by blast
    from records_fromD [OF assms(1) p'] obtain q' where
      q': "q' \<in> set bs" "fst q' = fst p'" "localName (snd p') = snd q' @ Phi"
      by blast
    from q(3) q'(3) e have "snd q = snd q'" by simp
    from one_local_name_per_importD [OF assms(2) q(1) q'(1) this] q(2) q'(2)
    have k: "fst p = fst p'" by simp
    from i k p p' show "p = p'" by (rule inj_onD)
  qed
  from d inj show ?thesis unfolding distinct_map by blast
qed

text \<open>
  C3, amended. For the records created while the pass walks a list of statements, the
  helper statement included: the local name of every record is the imported name of one
  of the module's bindings of the record's name, followed by the marker, and when no
  imported name is bound under two different local names the local names of the records
  are pairwise distinct.
\<close>

theorem localName_unique_per_imported_name:
  assumes "visitNodes opts emitStd stmts [] = Inr (ns, importMap)"
    and "one_local_name_per_import (import_bindings_list stmts)"
  shows "distinct (map (\<lambda>p. localName (snd p)) importMap)
         \<and> list_all (\<lambda>p. list_ex (\<lambda>q. fst q = name (snd p) \<and> localName (snd p) = snd q @ Phi)
                           (import_bindings_list stmts)) importMap"
proof -
  have "records_from (import_bindings_list stmts) []"
    by (simp add: records_from_def)
  from records_from_visitNodes [OF this _ assms(1)]
  have r: "records_from (import_bindings_list stmts) importMap" by simp
  have "list_all (\<lambda>p. list_ex (\<lambda>q. fst q = name (snd p) \<and> localName (snd p) = snd q @ Phi)
                           (import_bindings_list stmts)) importMap"
    using r unfolding records_from_def list_all_iff by simp
  with records_from_distinct [OF r assms(2)] show ?thesis by simp
qed

theorem localName_unique_per_imported_name_witness:
  "one_local_name_per_import
     (import_bindings_list
        [rtHelper,
         ImportDeclaration
           \<lparr>node_id = 1,
            importClause = Some \<lparr>clause_name = None,
              namedBindings = Some (NamedImports
                [ImportSpecifier (Some ''Q'') ''R'', ImportSpecifier None ''A''])\<rparr>,
            moduleSpecifier = ''x''\<rparr>,
         ClassDeclaration None None ''C''
           [PropertyDeclaration None None ''p''
              (Some (TypeReferenceNode (IdentifierName ''R'')))]])
   \<and> map_sum id (\<lambda>r. map (\<lambda>p. (fst p, localName (snd p))) (snd r))
       (visitNodes \<lparr>emitDecoratorMetadata = None, module_kind_option = ES2015\<rparr> None
          [rtHelper,
           ImportDeclaration
             \<lparr>node_id = 1,
              importClause = Some \<lparr>clause_name = None,
                namedBindings = Some (NamedImports
                  [ImportSpecifier (Some ''Q'') ''R'', ImportSpecifier None ''A''])\<rparr>,
              moduleSpecifier = ''x''\<rparr>,
           ClassDeclaration None None ''C''
             [PropertyDeclaration None None ''p''
                (Some (TypeReferenceNode (IdentifierName ''R'')))]] [])
     = Inr [(''R'', ''Q'' @ Phi), (''A'', ''A'' @ Phi)]
   \<and> distinct [''Q'' @ Phi, ''A'' @ Phi]"
proof -
  let ?opts = "\<lparr>emitDecoratorMetadata = None, module_kind_option = ES2015\<rparr>"
  let ?d = "\<lparr>node_id = 1,
            importClause = Some \<lparr>clause_name = None,
              namedBindings = Some (NamedImports
                [ImportSpecifier (Some ''Q'') ''R'', ImportSpecifier None ''A''])\<rparr>,
            moduleSpecifier = ''x''\<rparr>"
  let ?t = "Some (TypeReferenceNode (IdentifierName ''R''))"
  let ?stmts = "[rtHelper, ImportDeclaration ?d,
                 ClassDeclaration None None ''C'' [PropertyDeclaration None None ''p'' ?t]]"
  let ?ns = "[rtHelper, ImportDeclaration ?d,
              ClassDeclaration (Some [MetadataDecorator ''rt:f'' (MetaString ''C$'')]) None ''C''
                [PropertyDeclaration
                   (Some [MetadataDecorator ''rt:t''
                            (LiteralNode (ArrowFunction (Identifier (''Q'' @ Phi)))),
                          MetadataDecorator ''rt:f'' (MetaString ''P$'')])
                   None ''p'' ?t]]"
  let ?m = "[(''R'', \<lparr>importDeclaration = ?d, refName = ''R'', modulePath = ''x'',
                     isNamespace = False, referenced = True, name = ''R'',
                     localName = ''Q'' @ Phi\<rparr>),
             (''A'', \<lparr>importDeclaration = ?d, refName = ''A'', modulePath = ''x'',
                     isNamespace = False, referenced = False, name = ''A'',
                     localName = ''A'' @ Phi\<rparr>)]"
  have v: "visitNodes ?opts None ?stmts [] = Inr (?ns, ?m)"
    by (simp add: rtHelper_def visitImport_def namedImport_record_def
        extractClassMetadata_def extractPropertyMetadata_def extractTypeMetadata_def
        assureTypeAvailable_def entityNameExpr_def truthy_def add_decorators_def
        metadataDecorator_def literalNode_def forwardRef_def getVisibility_def isAbstract_def
        isReadOnly_def F_CLASS_def F_PROPERTY_def F_PUBLIC_def Let_def)
  have h: "one_local_name_per_import (import_bindings_list ?stmts)"
    by (simp add: one_local_name_per_import_def rtHelper_def declaration_bindings_def
        imported_name_def)
  from localName_unique_per_imported_name [OF v h] have "distinct (map (\<lambda>p. localName (snd p)) ?m)" by blast
  then have d: "distinct [''Q'' @ Phi, ''A'' @ Phi]" by simp
  have e: "map_sum id (\<lambda>r. map (\<lambda>p. (fst p, localName (snd p))) (snd r))
             (visitNodes ?opts None ?stmts []) = Inr [(''R'', ''Q'' @ Phi), (''A'', ''A'' @ Phi)]"
    unfolding v by simp
  from h e d show ?thesis by (simp only: simp_thms)
qed

subsection \<open>What processing leaves untouched\<close>

lemma frame_refl: "frame h h"
  by (simp add: frame_def)

lemma frame_trans: "frame h h1 \<Longrightarrow> frame h1 h2 \<Longrightarrow> frame h h2"
  by (auto simp: frame_def)

lemma newArray_frame:
  "newArray xs h = (a, h1) \<Longrightarrow>
   frame h h1 \<and> a = nextAddress h \<and> nextAddress h1 = Suc a \<and> nodeArrays h1 a = Some xs"
  by (auto simp: newArray_def frame_def)

lemma loop_at_eq:
  "nodeArrays h a = Some xs \<Longrightarrow>
   generateImports_loop_at cjs rs a h
     = h\<lparr>nodeArrays := (nodeArrays h)(a \<mapsto> generateImports_loop cjs rs xs)\<rparr>"
  by (induction rs arbitrary: h xs) (simp_all add: map_upd_triv)

lemma transformSourceFile_at_frame:
  assumes "transformSourceFile_at emitStd sf h = (r, h')"
  shows "frame h h'"
proof (cases "nodeArrays h (statementsAt sf)")
  case None
  with assms show ?thesis by (simp add: transformSourceFile_at_def frame_refl)
next
  case (Some stmts)
  obtain a1 h1 where n1: "newArray (rtHelper # stmts) h = (a1, h1)"
    by (cases "newArray (rtHelper # stmts) h")
  note f1 = newArray_frame [OF n1]
  show ?thesis
  proof (cases "visitNodes (compilerOptions h1) emitStd (rtHelper # stmts) []")
    case (Inl e)
    with assms Some n1 have "h' = h1"
      by (simp add: transformSourceFile_at_def del: visitNodes.simps)
    with f1 show ?thesis by simp
  next
    case (Inr vm)
    obtain visited importMap where vm: "vm = (visited, importMap)" by (cases vm)
    obtain a2 h2 where n2:
      "(if visited = rtHelper # stmts then (a1, h1) else newArray visited h1) = (a2, h2)"
      by (cases "if visited = rtHelper # stmts then (a1, h1) else newArray visited h1")
    have f2: "frame h1 h2"
      using n2 newArray_frame [of visited h1 a2 h2] by (auto simp: frame_refl split: if_splits)
    obtain a3 h3 where n3: "newArray visited h2 = (a3, h3)"
      by (cases "newArray visited h2")
    note f3 = newArray_frame [OF n3]
    let ?h4 = "generateImports_loop_at (module_kind_option (compilerOptions h3) = CommonJS)
                 (numbered_records importMap visited) a3 h3"
    have h4: "?h4 = h3\<lparr>nodeArrays := (nodeArrays h3)(a3 \<mapsto>
                 generateImports_loop (module_kind_option (compilerOptions h3) = CommonJS)
                   (numbered_records importMap visited) visited)\<rparr>"
    proof (rule loop_at_eq)
      from f3 show "nodeArrays h3 a3 = Some visited" by blast
    qed
    have "frame h h3"
      using f1 f2 f3 by (blast intro: frame_trans)
    moreover have "nextAddress h \<le> a3"
      using f1 f2 f3 by (auto simp: frame_def)
    ultimately have "frame h ?h4"
      unfolding h4 by (auto simp: frame_def)
    moreover have "h' = ?h4"
      using assms Some n1 Inr vm n2 n3
      by (simp add: transformSourceFile_at_def Let_def del: visitNodes.simps)
    ultimately show ?thesis by simp
  qed
qed


lemma transformSourceFile_pure:
  "transformSourceFile opts emitStd \<lparr>statements = stmts, isDeclarationFile = d\<rparr>
     = (case visitNodes opts emitStd (rtHelper # stmts) [] of
          Inl e \<Rightarrow> Inl e
        | Inr (visited, importMap) \<Rightarrow>
            Inr \<lparr>statements = generateImports opts importMap visited, isDeclarationFile = d\<rparr>)"
  by (simp add: transformSourceFile_def del: visitNodes.simps split: sum.splits)

lemma transformSourceFile_at_result:
  assumes "transformSourceFile_at emitStd sf h = (r, h')"
    and "nodeArrays h (statementsAt sf) = Some stmts"
  shows "case transformSourceFile (compilerOptions h) emitStd
                \<lparr>statements = stmts, isDeclarationFile = declarationFile sf\<rparr> of
           Inl e \<Rightarrow> r = Inl e
         | Inr out \<Rightarrow>
             (\<exists>a. nextAddress h \<le> a
                  \<and> r = Inr (sf\<lparr>statementsAt := a\<rparr>)
                  \<and> nodeArrays h' a = Some (statements out))"
proof -
  obtain a1 h1 where n1: "newArray (rtHelper # stmts) h = (a1, h1)"
    by (cases "newArray (rtHelper # stmts) h")
  note f1 = newArray_frame [OF n1]
  from f1 have o1: "compilerOptions h1 = compilerOptions h" by (simp add: frame_def)
  show ?thesis
  proof (cases "visitNodes (compilerOptions h) emitStd (rtHelper # stmts) []")
    case (Inl e)
    with assms n1 o1 have "r = Inl e"
      by (simp add: transformSourceFile_at_def del: visitNodes.simps)
    with Inl show ?thesis by (simp add: transformSourceFile_pure del: visitNodes.simps)
  next
    case (Inr vm)
    obtain visited importMap where vm: "vm = (visited, importMap)" by (cases vm)
    obtain a2 h2 where n2:
      "(if visited = rtHelper # stmts then (a1, h1) else newArray visited h1) = (a2, h2)"
      by (cases "if visited = rtHelper # stmts then (a1, h1) else newArray visited h1")
    have f2: "frame h1 h2"
      using n2 newArray_frame [of visited h1 a2 h2] by (auto simp: frame_refl split: if_splits)
    obtain a3 h3 where n3: "newArray visited h2 = (a3, h3)"
      by (cases "newArray visited h2")
    note f3 = newArray_frame [OF n3]
    have o3: "compilerOptions h3 = compilerOptions h"
      using f1 f2 f3 by (simp add: frame_def)
    let ?h4 = "generateImports_loop_at (module_kind_option (compilerOptions h3) = CommonJS)
                 (numbered_records importMap visited) a3 h3"
    have h4: "?h4 = h3\<lparr>nodeArrays := (nodeArrays h3)(a3 \<mapsto>
                 generateImports_loop (module_kind_option (compilerOptions h3) = CommonJS)
                   (numbered_records importMap visited) visited)\<rparr>"
    proof (rule loop_at_eq)
      from f3 show "nodeArrays h3 a3 = Some visited" by blast
    qed
    have a3: "nextAddress h \<le> a3"
      using f1 f2 f3 by (auto simp: frame_def)
    have r: "r = Inr (sf\<lparr>statementsAt := a3\<rparr>)"
      and h': "h' = ?h4"
      using assms n1 Inr vm n2 n3 o1
      by (simp_all add: transformSourceFile_at_def Let_def del: visitNodes.simps)
    have "nodeArrays ?h4 a3
            = Some (generateImports_loop (module_kind_option (compilerOptions h3) = CommonJS)
                      (numbered_records importMap visited) visited)"
      by (subst h4) simp
    then have "nodeArrays h' a3 = Some (generateImports (compilerOptions h) importMap visited)"
      by (simp add: h' o3 generateImports_def)
    with a3 r have "\<exists>a. nextAddress h \<le> a \<and> r = Inr (sf\<lparr>statementsAt := a\<rparr>)
          \<and> nodeArrays h' a = Some (generateImports (compilerOptions h) importMap visited)"
      by blast
    with Inr vm show ?thesis
      by (simp add: transformSourceFile_pure del: visitNodes.simps)
  qed
qed

text \<open>
  C7, amended. Creating the transformer captures the host's \<open>emitDecoratorMetadata\<close>
  option and then writes \<open>false\<close> to it, leaving the other options, every array and
  the rest of the host's state as they were. Processing a source file leaves the options
  and the rest of the host's state, the type-checking context included, as they are and
  changes no array that existed before the call, the statements of the input among them;
  its only result is the returned source file, which refers to a new array holding the
  statements the pass computes, or the error the pass raises.
\<close>

theorem host_state_frame:
  "(case createTransformer h of
      (h0, emitStd0) \<Rightarrow>
        compilerOptions h0 = (compilerOptions h)\<lparr>emitDecoratorMetadata := Some False\<rparr>
        \<and> emitStd0 = emitDecoratorMetadata (compilerOptions h)
        \<and> nodeArrays h0 = nodeArrays h \<and> nextAddress h0 = nextAddress h
        \<and> host_state.more h0 = host_state.more h)
   \<and> (transformSourceFile_at emitStd sf h = (r, h') \<longrightarrow>
        compilerOptions h' = compilerOptions h
        \<and> host_state.more h' = host_state.more h
        \<and> (\<forall>a<nextAddress h. nodeArrays h' a = nodeArrays h a)
        \<and> (\<forall>stmts. nodeArrays h (statementsAt sf) = Some stmts \<longrightarrow>
              (case transformSourceFile (compilerOptions h) emitStd
                      \<lparr>statements = stmts, isDeclarationFile = declarationFile sf\<rparr> of
                 Inl e \<Rightarrow> r = Inl e
               | Inr out \<Rightarrow>
                   (\<exists>a. nextAddress h \<le> a
                        \<and> r = Inr (sf\<lparr>statementsAt := a\<rparr>)
                        \<and> nodeArrays h' a = Some (statements out)))))"
proof -
  have A: "case createTransformer h of
      (h0, emitStd0) \<Rightarrow>
        compilerOptions h0 = (compilerOptions h)\<lparr>emitDecoratorMetadata := Some False\<rparr>
        \<and> emitStd0 = emitDecoratorMetadata (compilerOptions h)
        \<and> nodeArrays h0 = nodeArrays h \<and> nextAddress h0 = nextAddress h
        \<and> host_state.more h0 = host_state.more h"
    by (simp add: createTransformer_def transformer_def)
  have B: "compilerOptions h' = compilerOptions h
           \<and> host_state.more h' = host_state.more h
           \<and> (\<forall>a<nextAddress h. nodeArrays h' a = nodeArrays h a)"
    if "transformSourceFile_at emitStd sf h = (r, h')"
    using transformSourceFile_at_frame [OF that] by (simp add: frame_def)
  have C: "case transformSourceFile (compilerOptions h) emitStd
                      \<lparr>statements = stmts, isDeclarationFile = declarationFile sf\<rparr> of
                 Inl e \<Rightarrow> r = Inl e
               | Inr out \<Rightarrow>
                   (\<exists>a. nextAddress h \<le> a
                        \<and> r = Inr (sf\<lparr>statementsAt := a\<rparr>)
                        \<and> nodeArrays h' a = Some (statements out))"
    if "transformSourceFile_at emitStd sf h = (r, h')"
      and "nodeArrays h (statementsAt sf) = Some stmts" for stmts
    using that by (rule transformSourceFile_at_result)
  from A B C show ?thesis by blast
qed

theorem host_state_frame_witness:
  "compilerOptions
     (snd (transformSourceFile_at None \<lparr>statementsAt = 0, declarationFile = False\<rparr>
        \<lparr>compilerOptions = \<lparr>emitDecoratorMetadata = Some False, module_kind_option = ES2015\<rparr>,
         nodeArrays = [0 \<mapsto>
           [ImportDeclaration
              \<lparr>node_id = 1,
               importClause = Some \<lparr>clause_name = None,
                 namedBindings = Some (NamedImports [ImportSpecifier None ''A''])\<rparr>,
               moduleSpecifier = ''x''\<rparr>,
            ClassDeclaration None None ''C''
              [PropertyDeclaration None None ''p''
                 (Some (TypeReferenceNode (IdentifierName ''A'')))]]],
         nextAddress = 1\<rparr>))
     = \<lparr>emitDecoratorMetadata = Some False, module_kind_option = ES2015\<rparr>
   \<and> nodeArrays
     (snd (transformSourceFile_at None \<lparr>statementsAt = 0, declarationFile = False\<rparr>
        \<lparr>compilerOptions = \<lparr>emitDecoratorMetadata = Some False, module_kind_option = ES2015\<rparr>,
         nodeArrays = [0 \<mapsto>
           [ImportDeclaration
              \<lparr>node_id = 1,
               importClause = Some \<lparr>clause_name = None,
                 namedBindings = Some (NamedImports [ImportSpecifier None ''A''])\<rparr>,
               moduleSpecifier = ''x''\<rparr>,
            ClassDeclaration None None ''C''
              [PropertyDeclaration None None ''p''
                 (Some (TypeReferenceNode (IdentifierName ''A'')))]]],
         nextAddress = 1\<rparr>)) 0
     = Some
         [ImportDeclaration
            \<lparr>node_id = 1,
             importClause = Some \<lparr>clause_name = None,
               namedBindings = Some (NamedImports [ImportSpecifier None ''A''])\<rparr>,
             moduleSpecifier = ''x''\<rparr>,
          ClassDeclaration None None ''C''
            [PropertyDeclaration None None ''p''
               (Some (TypeReferenceNode (IdentifierName ''A'')))]]
   \<and> (\<exists>a\<ge>1.
        fst (transformSourceFile_at None \<lparr>statementsAt = 0, declarationFile = False\<rparr>
        \<lparr>compilerOptions = \<lparr>emitDecoratorMetadata = Some False, module_kind_option = ES2015\<rparr>,
         nodeArrays = [0 \<mapsto>
           [ImportDeclaration
              \<lparr>node_id = 1,
               importClause = Some \<lparr>clause_name = None,
                 namedBindings = Some (NamedImports [ImportSpecifier None ''A''])\<rparr>,
               moduleSpecifier = ''x''\<rparr>,
            ClassDeclaration None None ''C''
              [PropertyDeclaration None None ''p''
                 (Some (TypeReferenceNode (IdentifierName ''A'')))]]],
         nextAddress = 1\<rparr>)
          = Inr \<lparr>statementsAt = a, declarationFile = False\<rparr>)"
proof -
  let ?opts = "\<lparr>emitDecoratorMetadata = Some False, module_kind_option = ES2015\<rparr>"
  let ?d = "\<lparr>node_id = 1,
             importClause = Some \<lparr>clause_name = None,
               namedBindings = Some (NamedImports [ImportSpecifier None ''A''])\<rparr>,
             moduleSpecifier = ''x''\<rparr>"
  let ?owned = "\<lambda>i. ImportDeclaration
                  \<lparr>node_id = i,
                   importClause = Some \<lparr>clause_name = None,
                     namedBindings = Some (NamedImports
                       [ImportSpecifier (Some ''A'') (''A'' @ Phi)])\<rparr>,
                   moduleSpecifier = ''x''\<rparr>"
  let ?t = "Some (TypeReferenceNode (IdentifierName ''A''))"
  let ?stmts = "[ImportDeclaration ?d,
                 ClassDeclaration None None ''C'' [PropertyDeclaration None None ''p'' ?t]]"
  let ?sf = "\<lparr>statementsAt = 0, declarationFile = False\<rparr>"
  let ?h = "\<lparr>compilerOptions = ?opts, nodeArrays = [0 \<mapsto> ?stmts], nextAddress = 1\<rparr>"
  let ?X = "transformSourceFile_at None ?sf ?h"
  let ?O1 = "\<lparr>statements =
               [rtHelper, ?owned 2, ImportDeclaration ?d,
                ClassDeclaration (Some [MetadataDecorator ''rt:f'' (MetaString ''C$'')])
                  None ''C''
                  [PropertyDeclaration
                     (Some [MetadataDecorator ''rt:t''
                              (LiteralNode (ArrowFunction (Identifier (''A'' @ Phi)))),
                            MetadataDecorator ''rt:f'' (MetaString ''P$'')])
                     None ''p'' ?t]],
             isDeclarationFile = False\<rparr>"
  have p: "transformSourceFile ?opts None \<lparr>statements = ?stmts, isDeclarationFile = False\<rparr>
             = Inr ?O1"
    by (simp add: transformSourceFile_def rtHelper_def visitImport_def namedImport_record_def
        extractClassMetadata_def extractPropertyMetadata_def extractTypeMetadata_def
        assureTypeAvailable_def entityNameExpr_def truthy_def add_decorators_def
        metadataDecorator_def literalNode_def forwardRef_def getVisibility_def isAbstract_def
        isReadOnly_def F_CLASS_def F_PROPERTY_def F_PUBLIC_def
        generateImports_def numbered_records_def fresh_base_def generateImports_step_def
        ownedImport_def splice_in_def enumerate_eq_zip Let_def)
  have x: "?X = (fst ?X, snd ?X)" by simp
  have s: "nodeArrays ?h (statementsAt ?sf) = Some ?stmts" by simp
  from host_state_frame [of ?h None ?sf "fst ?X" "snd ?X"] x
  have o: "compilerOptions (snd ?X) = compilerOptions ?h"
    and f: "\<forall>a<nextAddress ?h. nodeArrays (snd ?X) a = nodeArrays ?h a"
    and r: "\<forall>stmts. nodeArrays ?h (statementsAt ?sf) = Some stmts \<longrightarrow>
              (case transformSourceFile (compilerOptions ?h) None
                      \<lparr>statements = stmts, isDeclarationFile = declarationFile ?sf\<rparr> of
                 Inl e \<Rightarrow> fst ?X = Inl e
               | Inr out \<Rightarrow>
                   (\<exists>a. nextAddress ?h \<le> a
                        \<and> fst ?X = Inr (?sf\<lparr>statementsAt := a\<rparr>)
                        \<and> nodeArrays (snd ?X) a = Some (statements out)))"
    by blast+
  from o have 1: "compilerOptions (snd ?X) = ?opts" by simp
  from f have 2: "nodeArrays (snd ?X) 0 = Some ?stmts" by simp
  have p': "transformSourceFile (compilerOptions ?h) None
                \<lparr>statements = ?stmts, isDeclarationFile = declarationFile ?sf\<rparr> = Inr ?O1"
    using p by simp
  from r [rule_format, OF s]
  have "\<exists>a. nextAddress ?h \<le> a \<and> fst ?X = Inr (?sf\<lparr>statementsAt := a\<rparr>)
            \<and> nodeArrays (snd ?X) a = Some (statements ?O1)"
    unfolding p' by simp
  then have 3: "\<exists>a\<ge>1. fst ?X = Inr \<lparr>statementsAt = a, declarationFile = False\<rparr>"
    by auto
  from 1 2 3 show ?thesis by (simp only: simp_thms)
qed

end
